theory Spec2Isabelle
  imports Main "HOL-Library.Word"
begin

section \<open>The credential ledger contract (EducationNFT.sol)\<close>

text \<open>
  The contract \<open>EducationCredentialNFT\<close> is embedded as a state record and one function per
  Solidity function. A call either reverts (\<open>Inl\<close>, carrying the revert string of the source;
  the state of the caller is then the state before the call) or returns the new state.
  Solidity's \<open>uint256\<close>, \<open>bytes32\<close>, \<open>address\<close> and \<open>uint8\<close> are words of that width.
  Events do not touch storage and are left out. The bases the contract inherits
  (ERC721Upgradeable, AccessControlUpgradeable, PausableUpgradeable of OpenZeppelin 4.x, the
  release line whose transfer hook takes \<open>batchSize\<close>) are imported, not part of the
  repository; the functions of theirs that the contract calls are written out below. The
  receiver callback of a safe mint or transfer is taken not to call back into the contract,
  and replacing the implementation through the upgrade proxy is not a transaction of the
  model.
\<close>

type_synonym uint256 = "256 word"
type_synonym bytes32 = "256 word"
type_synonym address = "160 word"
type_synonym uint8 = "8 word"

datatype error = Revert string | Panic nat

type_synonym 'a result = "error + 'a"

datatype role = DEFAULT_ADMIN_ROLE | ISSUER_ROLE | VERIFIER_ROLE | UPGRADER_ROLE

record Credential =
  courseHash :: string
  studentHash :: string
  completionDate :: uint256
  evaluationHash :: string
  ipfsMetadata :: string
  credentialType :: uint8
  isRevocable :: bool
  isSoulbound :: bool
  issuer :: address
  validUntil :: uint256
  zkProof :: bytes32
  isVerified :: bool

text \<open>The value of a storage slot that was never written, or was cleared by \<open>delete\<close>.\<close>

definition zero_credential :: Credential where
  "zero_credential = \<lparr> courseHash = [], studentHash = [], completionDate = 0,
     evaluationHash = [], ipfsMetadata = [], credentialType = 0, isRevocable = False,
     isSoulbound = False, issuer = 0, validUntil = 0, zkProof = 0, isVerified = False \<rparr>"

text \<open>
  Storage of the contract (\<open>_tokenIdCounter\<close>, \<open>credentials\<close>, \<open>usedHashes\<close>,
  \<open>revokedCredentials\<close>, \<open>issuerCredentials\<close>, \<open>emergencyPaused\<close>) followed by the storage it
  inherits from the OpenZeppelin 4.x bases: ERC721 (\<open>_owners\<close>, \<open>_balances\<close>,
  \<open>_tokenApprovals\<close>, \<open>_operatorApprovals\<close>), AccessControl (\<open>_roles\<close>) and Pausable
  (\<open>_paused\<close>).
\<close>

record state =
  tokenIdCounter :: uint256
  credentials :: "uint256 \<Rightarrow> Credential"
  usedHashes :: "bytes32 \<Rightarrow> bool"
  revokedCredentials :: "uint256 \<Rightarrow> bool"
  issuerCredentials :: "address \<Rightarrow> uint256 list"
  emergencyPaused :: bool
  owners :: "uint256 \<Rightarrow> address"
  balances :: "address \<Rightarrow> uint256"
  tokenApprovals :: "uint256 \<Rightarrow> address"
  operatorApprovals :: "address \<Rightarrow> address \<Rightarrow> bool"
  roles :: "role \<Rightarrow> address \<Rightarrow> bool"
  paused :: bool

text \<open>
  What a call sees of its transaction: \<open>msg.sender\<close>, \<open>block.timestamp\<close>, and the answer of
  \<open>_checkOnERC721Received\<close> for a recipient (true for every externally owned account, and
  for a contract that returns the ERC721 receiver selector).
\<close>

record ctx =
  msg_sender :: address
  block_timestamp :: uint256
  onERC721Received :: "address \<Rightarrow> bool"

definition zero_state :: state where
  "zero_state = \<lparr> tokenIdCounter = 0, credentials = (\<lambda>_. zero_credential),
     usedHashes = (\<lambda>_. False), revokedCredentials = (\<lambda>_. False),
     issuerCredentials = (\<lambda>_. []), emergencyPaused = False, owners = (\<lambda>_. 0),
     balances = (\<lambda>_. 0), tokenApprovals = (\<lambda>_. 0),
     operatorApprovals = (\<lambda>_ _. False), roles = (\<lambda>_ _. False), paused = False \<rparr>"

text \<open>\<open>initialize()\<close>: the four roles go to the deployer.\<close>

definition initialize :: "ctx \<Rightarrow> state \<Rightarrow> state" where
  "initialize c s = s\<lparr> roles := (\<lambda>r a. a = msg_sender c \<or> roles s r a) \<rparr>"

subsection \<open>Inherited ERC721 and AccessControl functions\<close>

definition exists_token :: "state \<Rightarrow> uint256 \<Rightarrow> bool" where
  "exists_token s tokenId \<longleftrightarrow> owners s tokenId \<noteq> 0"

definition ownerOf :: "state \<Rightarrow> uint256 \<Rightarrow> address result" where
  "ownerOf s tokenId =
     (if owners s tokenId = 0 then Inl (Revert ''ERC721: invalid token ID'')
      else Inr (owners s tokenId))"

definition isApprovedOrOwner :: "state \<Rightarrow> address \<Rightarrow> uint256 \<Rightarrow> bool result" where
  "isApprovedOrOwner s spender tokenId =
     (case ownerOf s tokenId of
        Inl e \<Rightarrow> Inl e
      | Inr owner \<Rightarrow> Inr (spender = owner \<or> operatorApprovals s owner spender
                          \<or> tokenApprovals s tokenId = spender))"

definition onlyRole :: "state \<Rightarrow> ctx \<Rightarrow> role \<Rightarrow> bool" where
  "onlyRole s c r \<longleftrightarrow> roles s r (msg_sender c)"

text \<open>
  The revert of \<open>onlyRole\<close>; the message of the base spells out the account and the role.
\<close>

definition missing_role :: error where
  "missing_role = Revert ''AccessControl: account is missing role''"

text \<open>
  \<open>_beforeTokenTransfer\<close> of the contract (lines 389-411): the modifier \<open>whenNotPaused\<close>,
  then the soulbound, revoked and expiry requirements. The hook of the base does nothing
  for a single token.
\<close>

definition beforeTokenTransfer ::
  "ctx \<Rightarrow> state \<Rightarrow> address \<Rightarrow> address \<Rightarrow> uint256 \<Rightarrow> unit result" where
  "beforeTokenTransfer c s from to tokenId =
     (if paused s then Inl (Revert ''Pausable: paused'')
      else if \<not> (\<not> isSoulbound (credentials s tokenId) \<or> from = 0)
        then Inl (Revert ''Soulbound token cannot be transferred'')
      else if revokedCredentials s tokenId
        then Inl (Revert ''Revoked credential cannot be transferred'')
      else if 0 < validUntil (credentials s tokenId)
              \<and> validUntil (credentials s tokenId) < block_timestamp c
        then Inl (Revert ''Expired credential cannot be transferred'')
      else Inr ())"

definition mint_erc721 :: "ctx \<Rightarrow> state \<Rightarrow> address \<Rightarrow> uint256 \<Rightarrow> state result" where
  "mint_erc721 c s to tokenId =
     (if to = 0 then Inl (Revert ''ERC721: mint to the zero address'')
      else if exists_token s tokenId then Inl (Revert ''ERC721: token already minted'')
      else case beforeTokenTransfer c s 0 to tokenId of
        Inl e \<Rightarrow> Inl e
      | Inr _ \<Rightarrow> Inr (s\<lparr> balances := (balances s)(to := balances s to + 1),
                        owners := (owners s)(tokenId := to) \<rparr>))"

definition safeMint :: "ctx \<Rightarrow> state \<Rightarrow> address \<Rightarrow> uint256 \<Rightarrow> state result" where
  "safeMint c s to tokenId =
     (case mint_erc721 c s to tokenId of
        Inl e \<Rightarrow> Inl e
      | Inr s' \<Rightarrow>
          if onERC721Received c to then Inr s'
          else Inl (Revert ''ERC721: transfer to non ERC721Receiver implementer''))"

definition burn_erc721 :: "ctx \<Rightarrow> state \<Rightarrow> uint256 \<Rightarrow> state result" where
  "burn_erc721 c s tokenId =
     (case ownerOf s tokenId of
        Inl e \<Rightarrow> Inl e
      | Inr owner \<Rightarrow>
          (case beforeTokenTransfer c s owner 0 tokenId of
             Inl e \<Rightarrow> Inl e
           | Inr _ \<Rightarrow> Inr (s\<lparr> tokenApprovals := (tokenApprovals s)(tokenId := 0),
                             balances := (balances s)(owner := balances s owner - 1),
                             owners := (owners s)(tokenId := 0) \<rparr>)))"

definition transfer_erc721 ::
  "ctx \<Rightarrow> state \<Rightarrow> address \<Rightarrow> address \<Rightarrow> uint256 \<Rightarrow> state result" where
  "transfer_erc721 c s from to tokenId =
     (case ownerOf s tokenId of
        Inl e \<Rightarrow> Inl e
      | Inr owner \<Rightarrow>
          if owner \<noteq> from then Inl (Revert ''ERC721: transfer from incorrect owner'')
          else if to = 0 then Inl (Revert ''ERC721: transfer to the zero address'')
          else (case beforeTokenTransfer c s from to tokenId of
             Inl e \<Rightarrow> Inl e
           | Inr _ \<Rightarrow>
               Inr (s\<lparr> tokenApprovals := (tokenApprovals s)(tokenId := 0),
                       balances := ((balances s)(from := balances s from - 1))
                         (to := ((balances s)(from := balances s from - 1)) to + 1),
                       owners := (owners s)(tokenId := to) \<rparr>)))"

definition transferFrom_erc721 ::
  "ctx \<Rightarrow> state \<Rightarrow> address \<Rightarrow> address \<Rightarrow> uint256 \<Rightarrow> state result" where
  "transferFrom_erc721 c s from to tokenId =
     (case isApprovedOrOwner s (msg_sender c) tokenId of
        Inl e \<Rightarrow> Inl e
      | Inr ok \<Rightarrow>
          if \<not> ok then Inl (Revert ''ERC721: caller is not token owner or approved'')
          else transfer_erc721 c s from to tokenId)"

definition safeTransferFrom_erc721 ::
  "ctx \<Rightarrow> state \<Rightarrow> address \<Rightarrow> address \<Rightarrow> uint256 \<Rightarrow> state result" where
  "safeTransferFrom_erc721 c s from to tokenId =
     (case isApprovedOrOwner s (msg_sender c) tokenId of
        Inl e \<Rightarrow> Inl e
      | Inr ok \<Rightarrow>
          if \<not> ok then Inl (Revert ''ERC721: caller is not token owner or approved'')
          else (case transfer_erc721 c s from to tokenId of
             Inl e \<Rightarrow> Inl e
           | Inr s' \<Rightarrow>
               if onERC721Received c to then Inr s'
               else Inl (Revert ''ERC721: transfer to non ERC721Receiver implementer'')))"

definition approve :: "ctx \<Rightarrow> state \<Rightarrow> address \<Rightarrow> uint256 \<Rightarrow> state result" where
  "approve c s to tokenId =
     (case ownerOf s tokenId of
        Inl e \<Rightarrow> Inl e
      | Inr owner \<Rightarrow>
          if to = owner then Inl (Revert ''ERC721: approval to current owner'')
          else if \<not> (msg_sender c = owner \<or> operatorApprovals s owner (msg_sender c))
            then Inl (Revert ''ERC721: approve caller is not token owner or approved for all'')
          else Inr (s\<lparr> tokenApprovals := (tokenApprovals s)(tokenId := to) \<rparr>))"

definition setApprovalForAll :: "ctx \<Rightarrow> state \<Rightarrow> address \<Rightarrow> bool \<Rightarrow> state result" where
  "setApprovalForAll c s operator approved =
     (if msg_sender c = operator then Inl (Revert ''ERC721: approve to caller'')
      else Inr (s\<lparr> operatorApprovals :=
                    (operatorApprovals s)(msg_sender c :=
                       (operatorApprovals s (msg_sender c))(operator := approved)) \<rparr>))"

definition grantRole :: "ctx \<Rightarrow> state \<Rightarrow> role \<Rightarrow> address \<Rightarrow> state result" where
  "grantRole c s r account =
     (if \<not> onlyRole s c DEFAULT_ADMIN_ROLE then Inl missing_role
      else Inr (s\<lparr> roles := (roles s)(r := (roles s r)(account := True)) \<rparr>))"

definition revokeRole :: "ctx \<Rightarrow> state \<Rightarrow> role \<Rightarrow> address \<Rightarrow> state result" where
  "revokeRole c s r account =
     (if \<not> onlyRole s c DEFAULT_ADMIN_ROLE then Inl missing_role
      else Inr (s\<lparr> roles := (roles s)(r := (roles s r)(account := False)) \<rparr>))"

definition renounceRole :: "ctx \<Rightarrow> state \<Rightarrow> role \<Rightarrow> address \<Rightarrow> state result" where
  "renounceRole c s r account =
     (if account \<noteq> msg_sender c
        then Inl (Revert ''AccessControl: can only renounce roles for self'')
      else Inr (s\<lparr> roles := (roles s)(r := (roles s r)(account := False)) \<rparr>))"

subsection \<open>Issuance\<close>

text \<open>
  \<open>keccak256\<close> is a parameter of the two minting functions: the duplicate guard hashes
  \<open>abi.encodePacked(courseHash, studentHash)\<close>, which for two strings is their
  concatenation.
\<close>

definition credentialHash :: "(string \<Rightarrow> bytes32) \<Rightarrow> string \<Rightarrow> string \<Rightarrow> bytes32" where
  "credentialHash keccak256 cHash sHash = keccak256 (cHash @ sHash)"

text \<open>
  The part shared by \<open>mintCredential\<close> (lines 134-164) and \<open>_mintSingleCredential\<close>
  (lines 214-239): duplicate guard, counter increment, record, registry entry, issuer list,
  \<open>_safeMint\<close>. The struct literal of the source names eleven of the twelve fields;
  \<open>isVerified\<close> keeps its zero value.
\<close>

definition mintSingleCredential ::
  "(string \<Rightarrow> bytes32) \<Rightarrow> ctx \<Rightarrow> state \<Rightarrow> address \<Rightarrow> string \<Rightarrow> string \<Rightarrow> string
     \<Rightarrow> string \<Rightarrow> uint8 \<Rightarrow> bool \<Rightarrow> uint256 \<Rightarrow> bytes32 \<Rightarrow> (state \<times> uint256) result" where
  "mintSingleCredential keccak256 c s to cHash sHash eHash ipfs cType soulbound vUntil zk =
     (if usedHashes s (credentialHash keccak256 cHash sHash)
        then Inl (Revert ''Credential already exists'')
      else
        let tokenId = tokenIdCounter s + 1;
            s1 = s\<lparr> tokenIdCounter := tokenId,
                   credentials := (credentials s)(tokenId :=
                     \<lparr> courseHash = cHash, studentHash = sHash,
                       completionDate = block_timestamp c, evaluationHash = eHash,
                       ipfsMetadata = ipfs, credentialType = cType,
                       isRevocable = \<not> soulbound, isSoulbound = soulbound,
                       issuer = msg_sender c, validUntil = vUntil, zkProof = zk,
                       isVerified = False \<rparr>),
                   usedHashes := (usedHashes s)(credentialHash keccak256 cHash sHash := True),
                   issuerCredentials := (issuerCredentials s)(msg_sender c :=
                     issuerCredentials s (msg_sender c) @ [tokenId]) \<rparr>
        in case safeMint c s1 to tokenId of
             Inl e \<Rightarrow> Inl e
           | Inr s2 \<Rightarrow> Inr (s2, tokenId))"

definition mintCredential ::
  "(string \<Rightarrow> bytes32) \<Rightarrow> ctx \<Rightarrow> state \<Rightarrow> address \<Rightarrow> string \<Rightarrow> string \<Rightarrow> string
     \<Rightarrow> string \<Rightarrow> uint8 \<Rightarrow> bool \<Rightarrow> uint256 \<Rightarrow> bytes32 \<Rightarrow> (state \<times> uint256) result" where
  "mintCredential keccak256 c s to cHash sHash eHash ipfs cType soulbound vUntil zk =
     (if \<not> onlyRole s c ISSUER_ROLE then Inl missing_role
      else if paused s then Inl (Revert ''Pausable: paused'')
      else if to = 0 then Inl (Revert ''Cannot mint to zero address'')
      else if \<not> 0 < length cHash then Inl (Revert ''Course hash cannot be empty'')
      else if \<not> 0 < length sHash then Inl (Revert ''Student hash cannot be empty'')
      else if \<not> 0 < length ipfs then Inl (Revert ''IPFS metadata cannot be empty'')
      else if \<not> (1 \<le> cType \<and> cType \<le> 4) then Inl (Revert ''Invalid credential type'')
      else if \<not> (vUntil = 0 \<or> block_timestamp c < vUntil)
        then Inl (Revert ''Invalid expiration date'')
      else mintSingleCredential keccak256 c s to cHash sHash eHash ipfs cType soulbound vUntil zk)"

record BatchMintRequest =
  recipients :: "address list"
  courseHashes :: "string list"
  studentHashes :: "string list"
  evaluationHashes :: "string list"
  ipfsMetadataList :: "string list"
  credentialTypes :: "uint8 list"
  isSoulboundList :: "bool list"
  validUntils :: "uint256 list"
  zkProofs :: "bytes32 list"

text \<open>A read past the end of a memory array is \<open>Panic(0x32)\<close>.\<close>

definition in_bounds :: "BatchMintRequest \<Rightarrow> nat \<Rightarrow> bool" where
  "in_bounds req i \<longleftrightarrow>
     i < length (recipients req) \<and> i < length (courseHashes req)
     \<and> i < length (studentHashes req) \<and> i < length (evaluationHashes req)
     \<and> i < length (ipfsMetadataList req) \<and> i < length (credentialTypes req)
     \<and> i < length (isSoulboundList req) \<and> i < length (validUntils req)
     \<and> i < length (zkProofs req)"

definition batch_item ::
  "(string \<Rightarrow> bytes32) \<Rightarrow> ctx \<Rightarrow> BatchMintRequest \<Rightarrow> nat \<Rightarrow> state \<Rightarrow> state result" where
  "batch_item keccak256 c req i s =
     (if \<not> in_bounds req i then Inl (Panic 50)
      else case mintSingleCredential keccak256 c s
                  (recipients req ! i) (courseHashes req ! i) (studentHashes req ! i)
                  (evaluationHashes req ! i) (ipfsMetadataList req ! i)
                  (credentialTypes req ! i) (isSoulboundList req ! i)
                  (validUntils req ! i) (zkProofs req ! i) of
             Inl e \<Rightarrow> Inl e
           | Inr r \<Rightarrow> Inr (fst r))"

fun batch_loop ::
  "(string \<Rightarrow> bytes32) \<Rightarrow> ctx \<Rightarrow> BatchMintRequest \<Rightarrow> nat list \<Rightarrow> state \<Rightarrow> state result" where
  "batch_loop keccak256 c req [] s = Inr s"
| "batch_loop keccak256 c req (i # rest) s =
     (case batch_item keccak256 c req i s of
        Inl e \<Rightarrow> Inl e
      | Inr s' \<Rightarrow> batch_loop keccak256 c req rest s')"

definition batchMintCredentials ::
  "(string \<Rightarrow> bytes32) \<Rightarrow> ctx \<Rightarrow> state \<Rightarrow> BatchMintRequest \<Rightarrow> state result" where
  "batchMintCredentials keccak256 c s req =
     (if \<not> onlyRole s c ISSUER_ROLE then Inl missing_role
      else if paused s then Inl (Revert ''Pausable: paused'')
      else if \<not> length (recipients req) \<le> 50 then Inl (Revert ''Batch size too large'')
      else if length (recipients req) \<noteq> length (courseHashes req)
        then Inl (Revert ''Array length mismatch'')
      else batch_loop keccak256 c req [0 ..< length (recipients req)] s)"

subsection \<open>Reading and verification\<close>

definition getCredential :: "state \<Rightarrow> uint256 \<Rightarrow> Credential result" where
  "getCredential s tokenId =
     (if \<not> exists_token s tokenId then Inl (Revert ''Credential does not exist'')
      else Inr (credentials s tokenId))"

definition verifyCredential :: "ctx \<Rightarrow> state \<Rightarrow> uint256 \<Rightarrow> bool \<times> string" where
  "verifyCredential c s tokenId =
     (if \<not> exists_token s tokenId then (False, ''Credential does not exist'')
      else if revokedCredentials s tokenId then (False, ''Credential has been revoked'')
      else if 0 < validUntil (credentials s tokenId)
              \<and> validUntil (credentials s tokenId) < block_timestamp c
        then (False, ''Credential has expired'')
      else (True, ''Credential is valid''))"

definition isCredentialExpired :: "ctx \<Rightarrow> state \<Rightarrow> uint256 \<Rightarrow> bool" where
  "isCredentialExpired c s tokenId =
     (if \<not> exists_token s tokenId then True
      else 0 < validUntil (credentials s tokenId)
           \<and> validUntil (credentials s tokenId) < block_timestamp c)"

definition totalSupply :: "state \<Rightarrow> uint256" where
  "totalSupply s = tokenIdCounter s"

subsection \<open>Revocation, transfer, burn\<close>

definition revokeCredential :: "ctx \<Rightarrow> state \<Rightarrow> uint256 \<Rightarrow> string \<Rightarrow> state result" where
  "revokeCredential c s tokenId reason =
     (if \<not> onlyRole s c ISSUER_ROLE then Inl missing_role
      else if \<not> exists_token s tokenId then Inl (Revert ''Credential does not exist'')
      else if \<not> isRevocable (credentials s tokenId)
        then Inl (Revert ''Credential is not revocable'')
      else if \<not> (issuer (credentials s tokenId) = msg_sender c
                 \<or> roles s DEFAULT_ADMIN_ROLE (msg_sender c))
        then Inl (Revert ''Not authorized to revoke this credential'')
      else Inr (s\<lparr> revokedCredentials := (revokedCredentials s)(tokenId := True) \<rparr>))"

definition transferFrom ::
  "ctx \<Rightarrow> state \<Rightarrow> address \<Rightarrow> address \<Rightarrow> uint256 \<Rightarrow> state result" where
  "transferFrom c s from to tokenId =
     (if isSoulbound (credentials s tokenId)
        then Inl (Revert ''Soulbound tokens cannot be transferred'')
      else transferFrom_erc721 c s from to tokenId)"

definition safeTransferFrom ::
  "ctx \<Rightarrow> state \<Rightarrow> address \<Rightarrow> address \<Rightarrow> uint256 \<Rightarrow> state result" where
  "safeTransferFrom c s from to tokenId =
     (if isSoulbound (credentials s tokenId)
        then Inl (Revert ''Soulbound tokens cannot be transferred'')
      else safeTransferFrom_erc721 c s from to tokenId)"

text \<open>
  The two overloads of \<open>safeTransferFrom\<close> (lines 428-448) make the same check and reach
  the same transfer; they are one function here.
\<close>

text \<open>
  \<open>_removeFromIssuerList\<close> (lines 470-479): the first entry equal to \<open>tokenId\<close> is
  overwritten with the last entry and the list is popped.
\<close>

function removeFromIssuerList_loop :: "uint256 list \<Rightarrow> uint256 \<Rightarrow> nat \<Rightarrow> uint256 list" where
  "removeFromIssuerList_loop issuerList tokenId i =
     (if i < length issuerList then
        (if issuerList ! i = tokenId
           then butlast (issuerList[i := issuerList ! (length issuerList - 1)])
         else removeFromIssuerList_loop issuerList tokenId (i + 1))
      else issuerList)"
  by pat_completeness auto
termination
  by (relation "measure (\<lambda>(issuerList, tokenId, i). length issuerList - i)") auto

declare removeFromIssuerList_loop.simps [simp del]

definition removeFromIssuerList :: "state \<Rightarrow> address \<Rightarrow> uint256 \<Rightarrow> state" where
  "removeFromIssuerList s iss tokenId =
     s\<lparr> issuerCredentials := (issuerCredentials s)(iss :=
          removeFromIssuerList_loop (issuerCredentials s iss) tokenId 0) \<rparr>"

text \<open>\<open>burn\<close> (lines 454-468).\<close>

definition burn :: "ctx \<Rightarrow> state \<Rightarrow> uint256 \<Rightarrow> state result" where
  "burn c s tokenId =
     (case isApprovedOrOwner s (msg_sender c) tokenId of
        Inl e \<Rightarrow> Inl e
      | Inr ok \<Rightarrow>
          if \<not> ok then Inl (Revert ''Caller is not owner nor approved'')
          else
            let cred = credentials s tokenId in
            if \<not> isRevocable cred then Inl (Revert ''Soulbound tokens cannot be burned'')
            else (case burn_erc721 c s tokenId of
               Inl e \<Rightarrow> Inl e
             | Inr s1 \<Rightarrow>
                 Inr (removeFromIssuerList
                        (s1\<lparr> credentials := (credentials s1)(tokenId := zero_credential),
                             revokedCredentials := (revokedCredentials s1)(tokenId := False) \<rparr>)
                        (issuer cred) tokenId)))"

definition setCredentialVerification ::
  "ctx \<Rightarrow> state \<Rightarrow> uint256 \<Rightarrow> bool \<Rightarrow> string \<Rightarrow> state result" where
  "setCredentialVerification c s tokenId isValid reason =
     (if \<not> onlyRole s c VERIFIER_ROLE then Inl missing_role
      else if \<not> exists_token s tokenId then Inl (Revert ''Credential does not exist'')
      else Inr (s\<lparr> credentials := (credentials s)(tokenId :=
                    (credentials s tokenId)\<lparr> isVerified := isValid \<rparr>) \<rparr>))"

definition setEmergencyPause :: "ctx \<Rightarrow> state \<Rightarrow> bool \<Rightarrow> state result" where
  "setEmergencyPause c s p =
     (if \<not> onlyRole s c DEFAULT_ADMIN_ROLE then Inl missing_role
      else Inr (s\<lparr> emergencyPaused := p \<rparr>))"

subsection \<open>Transactions\<close>

text \<open>
  Every state-changing external function as one constructor; \<open>step\<close> dispatches, and
  \<open>apply_tx\<close> gives the storage after the transaction: that of a reverted transaction is
  the storage before it.
\<close>

datatype tx =
    MintCredential address string string string string uint8 bool uint256 bytes32
  | BatchMintCredentials BatchMintRequest
  | RevokeCredential uint256 string
  | TransferFrom address address uint256
  | SafeTransferFrom address address uint256
  | Burn uint256
  | SetCredentialVerification uint256 bool string
  | SetEmergencyPause bool
  | Approve address uint256
  | SetApprovalForAll address bool
  | GrantRole role address
  | RevokeRole role address
  | RenounceRole role address

fun step :: "(string \<Rightarrow> bytes32) \<Rightarrow> ctx \<Rightarrow> tx \<Rightarrow> state \<Rightarrow> state result" where
  "step k c (MintCredential to cHash sHash eHash ipfs cType soulbound vUntil zk) s =
     (case mintCredential k c s to cHash sHash eHash ipfs cType soulbound vUntil zk of
        Inl e \<Rightarrow> Inl e | Inr r \<Rightarrow> Inr (fst r))"
| "step k c (BatchMintCredentials req) s = batchMintCredentials k c s req"
| "step k c (RevokeCredential tokenId reason) s = revokeCredential c s tokenId reason"
| "step k c (TransferFrom from to tokenId) s = transferFrom c s from to tokenId"
| "step k c (SafeTransferFrom from to tokenId) s = safeTransferFrom c s from to tokenId"
| "step k c (Burn tokenId) s = burn c s tokenId"
| "step k c (SetCredentialVerification tokenId v reason) s =
     setCredentialVerification c s tokenId v reason"
| "step k c (SetEmergencyPause p) s = setEmergencyPause c s p"
| "step k c (Approve to tokenId) s = approve c s to tokenId"
| "step k c (SetApprovalForAll operator approved) s = setApprovalForAll c s operator approved"
| "step k c (GrantRole r account) s = grantRole c s r account"
| "step k c (RevokeRole r account) s = revokeRole c s r account"
| "step k c (RenounceRole r account) s = renounceRole c s r account"

definition apply_tx :: "(string \<Rightarrow> bytes32) \<Rightarrow> state \<Rightarrow> ctx \<times> tx \<Rightarrow> state" where
  "apply_tx k s ct = (case step k (fst ct) (snd ct) s of Inl _ \<Rightarrow> s | Inr s' \<Rightarrow> s')"

definition run :: "(string \<Rightarrow> bytes32) \<Rightarrow> state \<Rightarrow> (ctx \<times> tx) list \<Rightarrow> state" where
  "run k s txs = foldl (apply_tx k) s txs"

text \<open>
  The (courseHash, studentHash) pairs that a transaction issues when it succeeds, and the
  pairs issued along a sequence of transactions: those of the transactions that did not
  revert, in order. A batch issues the pairs of all its items or none.
\<close>

fun issued_by :: "tx \<Rightarrow> (string \<times> string) list" where
  "issued_by (MintCredential to cHash sHash eHash ipfs cType soulbound vUntil zk) = [(cHash, sHash)]"
| "issued_by (BatchMintCredentials req) =
     map (\<lambda>i. (courseHashes req ! i, studentHashes req ! i)) [0 ..< length (recipients req)]"
| "issued_by _ = []"

fun issued :: "(string \<Rightarrow> bytes32) \<Rightarrow> state \<Rightarrow> (ctx \<times> tx) list \<Rightarrow> (string \<times> string) list" where
  "issued k s [] = []"
| "issued k s (ct # rest) =
     (case step k (fst ct) (snd ct) s of
        Inl _ \<Rightarrow> issued k s rest
      | Inr s' \<Rightarrow> issued_by (snd ct) @ issued k s' rest)"

subsection \<open>Well-formed storage and the requirements of issuance\<close>

text \<open>
  Token ids are handed out by the counter, starting at 1: an id that has an owner or a
  revocation flag is nonzero and at most the counter.
\<close>

definition well_formed :: "state \<Rightarrow> bool" where
  "well_formed s \<longleftrightarrow> (\<forall>tokenId. owners s tokenId \<noteq> 0 \<or> revokedCredentials s tokenId
                 \<longrightarrow> tokenId \<noteq> 0 \<and> tokenId \<le> tokenIdCounter s)"

text \<open>
  The counter can still grow by \<open>n\<close> without wrapping around; and a token id that was
  handed out and has no owner (any more).
\<close>

definition room :: "state \<Rightarrow> nat \<Rightarrow> bool" where
  "room s n \<longleftrightarrow> unat (tokenIdCounter s) + n < 2 ^ 256"

definition burned :: "state \<Rightarrow> uint256 \<Rightarrow> bool" where
  "burned s tokenId \<longleftrightarrow> owners s tokenId = 0 \<and> tokenId \<le> tokenIdCounter s"

text \<open>
  The modifiers and \<open>require\<close> statements of \<open>mintCredential\<close> that come before the
  duplicate guard (lines 126-132).
\<close>

definition mint_guards ::
  "state \<Rightarrow> ctx \<Rightarrow> address \<Rightarrow> string \<Rightarrow> string \<Rightarrow> string \<Rightarrow> uint8 \<Rightarrow> uint256 \<Rightarrow> bool" where
  "mint_guards s c to cHash sHash ipfs cType vUntil \<longleftrightarrow>
     roles s ISSUER_ROLE (msg_sender c) \<and> \<not> paused s \<and> to \<noteq> 0 \<and> cHash \<noteq> [] \<and> sHash \<noteq> []
     \<and> ipfs \<noteq> [] \<and> 1 \<le> cType \<and> cType \<le> 4 \<and> (vUntil = 0 \<or> block_timestamp c < vUntil)"

text \<open>
  A soulbound token in the hands of \<open>a\<close>; the validity window of a record at the time of
  a call; and what \<open>burn\<close> asks of the caller and the record before it reaches \<open>_burn\<close>
  (an existing token, the holder or an approved party, a revocable record that is not
  soulbound) with the contract not paused.
\<close>

definition soulbound_held :: "state \<Rightarrow> uint256 \<Rightarrow> address \<Rightarrow> bool" where
  "soulbound_held s tokenId a \<longleftrightarrow>
     owners s tokenId = a \<and> a \<noteq> 0 \<and> isSoulbound (credentials s tokenId)
     \<and> \<not> isRevocable (credentials s tokenId)"

definition expired :: "ctx \<Rightarrow> state \<Rightarrow> uint256 \<Rightarrow> bool" where
  "expired c s tokenId \<longleftrightarrow> 0 < validUntil (credentials s tokenId)
      \<and> validUntil (credentials s tokenId) < block_timestamp c"

definition may_burn :: "state \<Rightarrow> ctx \<Rightarrow> uint256 \<Rightarrow> bool" where
  "may_burn s c tokenId \<longleftrightarrow>
     owners s tokenId \<noteq> 0
     \<and> (msg_sender c = owners s tokenId
        \<or> operatorApprovals s (owners s tokenId) (msg_sender c)
        \<or> tokenApprovals s tokenId = msg_sender c)
     \<and> isRevocable (credentials s tokenId) \<and> \<not> isSoulbound (credentials s tokenId)
     \<and> \<not> paused s"

subsection \<open>A sample deployment\<close>

definition k0 :: "string \<Rightarrow> bytes32" where
  "k0 x = of_nat (length x)"

definition deployer0 :: ctx where
  "deployer0 = \<lparr> msg_sender = 10, block_timestamp = 1000, onERC721Received = (\<lambda>_. True) \<rparr>"

definition s0 :: state where
  "s0 = initialize deployer0 zero_state"

definition holder0 :: ctx where
  "holder0 = \<lparr> msg_sender = 20, block_timestamp = 2000, onERC721Received = (\<lambda>_. True) \<rparr>"

definition mint_tx0 :: "ctx \<times> tx" where
  "mint_tx0 = (deployer0, MintCredential 20 ''c1'' ''s1'' ''e1'' ''Qm'' 1 False 0 0)"

definition s_minted :: state where
  "s_minted = run k0 s0 [mint_tx0]"

definition s_revoked :: state where
  "s_revoked = run k0 s_minted [(deployer0, RevokeCredential 1 ''policy violation'')]"

definition s_burned :: state where
  "s_burned = run k0 s_minted [(holder0, Burn 1)]"

section \<open>The ledger adapter (class BlockchainService)\<close>

text \<open>
  The adapter is a JavaScript class around an ethers contract handle. An exception is a
  value of \<open>js_exn\<close>; an \<open>async\<close> method returns \<open>Inl\<close> of the exception it throws or
  \<open>Inr\<close> of its result. What the contract handle and the hash function of \<open>crypto\<close>
  answer is a parameter. \<open>undefined\<close> is \<open>None\<close>.
\<close>

datatype js_exn = Error string | TypeError string | ReferenceError string

fun exn_message :: "js_exn \<Rightarrow> string" where
  "exn_message (Error m) = m"
| "exn_message (TypeError m) = m"
| "exn_message (ReferenceError m) = m"

text \<open>\<open>a || b\<close> on strings: the empty string and \<open>undefined\<close> are falsy.\<close>

definition js_or :: "string option \<Rightarrow> string option \<Rightarrow> string option" where
  "js_or a b = (case a of None \<Rightarrow> b | Some x \<Rightarrow> if x = [] then b else Some x)"

text \<open>\<open>String(data)\<close>.\<close>

definition js_String :: "string option \<Rightarrow> string" where
  "js_String data = (case data of None \<Rightarrow> ''undefined'' | Some x \<Rightarrow> x)"

definition lower_char :: "char \<Rightarrow> char" where
  "lower_char ch = (let n = (of_char ch :: nat)
                    in if 65 \<le> n \<and> n \<le> 90 then char_of (n + 32) else ch)"

definition toLowerCase :: "string \<Rightarrow> string" where
  "toLowerCase x = map lower_char x"

text \<open>\<open>Array.prototype.join\<close>.\<close>

fun join :: "string \<Rightarrow> string list \<Rightarrow> string" where
  "join sep [] = []"
| "join sep [x] = x"
| "join sep (x # y # ys) = x @ sep @ join sep (y # ys)"

text \<open>
  Reading an identifier: \<open>scope\<close> lists the names declared in the blocks around the
  expression. Reading any other name throws a ReferenceError.
\<close>

definition read_identifier :: "string list \<Rightarrow> string \<Rightarrow> js_exn + unit" where
  "read_identifier scope x =
     (if x \<in> set scope then Inr () else Inl (ReferenceError (x @ '' is not defined'')))"

subsection \<open>The IPFS service (class IPFSService, part_007 lines 394-619)\<close>

text \<open>
  The service object: \<open>this.client\<close>, given by what \<open>client.add\<close> answers for the JSON
  text of an object (the content id and the size), whether \<open>process.env.NODE_ENV\<close> is
  "development", and the fallback name that the clock and the random number give.
\<close>

record 'm ipfs_service =
  ipfs_client :: "('m \<Rightarrow> js_exn + string \<times> nat) option"
  ipfs_development :: bool
  ipfs_fallbackHash :: string

text \<open>
  The constructor (lines 398-409): \<open>initializeClient\<close> sets \<open>this.client = null\<close>. The
  import of the client library is commented out, and no other line assigns the field. The
  module exports one such object (line 619).
\<close>

definition IPFSService :: "bool \<Rightarrow> string \<Rightarrow> 'm ipfs_service" where
  "IPFSService development fallbackHash =
     \<lparr> ipfs_client = None, ipfs_development = development, ipfs_fallbackHash = fallbackHash \<rparr>"

record upload_result =
  ur_hash :: string
  ur_url :: string
  ur_size :: nat

text \<open>
  \<open>uploadMetadata\<close> (lines 411-447). \<open>metadataString\<close> is a \<open>const\<close> of the \<open>try\<close> block;
  the \<open>catch\<close> block reads it in the development fallback, where the names in scope are
  its own, the parameter of the method and those of the module. The source binds no value
  to the name there, so the fallback result carries size 0.
\<close>

definition uploadMetadata_catch_scope :: "string list" where
  "uploadMetadata_catch_scope = [''error'', ''fallbackHash'', ''metadata'', ''logger'',
     ''IPFSService'']"

definition uploadMetadata_catch :: "'m ipfs_service \<Rightarrow> js_exn \<Rightarrow> js_exn + upload_result" where
  "uploadMetadata_catch ipfs error =
     (if ipfs_development ipfs then
        (case read_identifier uploadMetadata_catch_scope ''metadataString'' of
           Inl e \<Rightarrow> Inl e
         | Inr _ \<Rightarrow> Inr \<lparr> ur_hash = ipfs_fallbackHash ipfs,
                          ur_url = ''https://example.com/metadata/'' @ ipfs_fallbackHash ipfs,
                          ur_size = 0 \<rparr>)
      else Inl (Error (''Failed to upload metadata to IPFS: '' @ exn_message error)))"

definition uploadMetadata :: "'m ipfs_service \<Rightarrow> 'm \<Rightarrow> js_exn + upload_result" where
  "uploadMetadata ipfs metadata =
     (case ipfs_client ipfs of
        None \<Rightarrow> uploadMetadata_catch ipfs (Error ''IPFS client not initialized'')
      | Some add \<Rightarrow>
          (case add metadata of
             Inl e \<Rightarrow> uploadMetadata_catch ipfs e
           | Inr result \<Rightarrow>
               Inr \<lparr> ur_hash = fst result, ur_url = ''https://ipfs.io/ipfs/'' @ fst result,
                     ur_size = snd result \<rparr>))"

subsection \<open>The adapter\<close>

record mint_call =
  mc_to :: "string option"
  mc_courseHash :: string
  mc_studentHash :: string
  mc_evaluationHash :: string
  mc_ipfsMetadata :: string
  mc_credentialType :: nat
  mc_isSoulbound :: bool
  mc_validUntil :: nat
  mc_zkProof :: string

text \<open>
  A mined transaction: hash, block number, gas used, and its logs, each with the name of
  the event that was emitted and its \<open>tokenId\<close> argument.
\<close>

record receipt =
  r_hash :: string
  r_blockNumber :: nat
  r_gasUsed :: string
  r_logs :: "(string \<times> string) list"

text \<open>
  The contract handle is an ethers version 6 contract (\<open>new ethers.JsonRpcProvider\<close>,
  \<open>contract.mintCredential.estimateGas\<close>): the gas estimate it resolves to is a bigint.
\<close>

record ethers_contract =
  estimateGas_mintCredential :: "mint_call \<Rightarrow> js_exn + nat"
  send_mintCredential :: "mint_call \<Rightarrow> nat \<Rightarrow> js_exn + receipt"
  send_transferFrom :: "string \<Rightarrow> string \<Rightarrow> string \<Rightarrow> js_exn + receipt"
  call_ownerOf :: "string \<Rightarrow> js_exn + string"
  call_verifyCertificate :: "string \<Rightarrow> js_exn + bool"

text \<open>
  The service object: \<open>this.contract\<close>, whether \<open>this.signer\<close> is set, SHA-256 in hex,
  \<open>toISOString\<close>, the clock, and what the IPFS service reads of the environment.
\<close>

record blockchain_service =
  contract :: "ethers_contract option"
  signer :: bool
  sha256_hex :: "string \<Rightarrow> string"
  date_ISO :: "nat \<Rightarrow> string"
  svc_clock :: nat
  svc_development :: bool
  svc_fallbackHash :: string

text \<open>What the adapter asked of the node, in order.\<close>

datatype rpc =
    EstimateGas string
  | SendTransaction string "nat option"

definition generateHash :: "blockchain_service \<Rightarrow> string option \<Rightarrow> string" where
  "generateHash svc data = sha256_hex svc (js_String data)"

text \<open>
  \<open>generateCompositeHash\<close> (lines 662-665): \<open>combined\<close> is what is hashed.
\<close>

definition combined :: "string list \<Rightarrow> string" where
  "combined data = join ''|'' data"

definition generateCompositeHash :: "blockchain_service \<Rightarrow> string list \<Rightarrow> string" where
  "generateCompositeHash svc data = generateHash svc (Some (combined data))"

definition zk_statement :: string where
  "zk_statement = ''{'' @ [CHR 0x22] @ ''courseCompleted'' @ [CHR 0x22] @ '':true,''
     @ [CHR 0x22] @ ''evaluationValid'' @ [CHR 0x22] @ '':true,''
     @ [CHR 0x22] @ ''issuerAuthorized'' @ [CHR 0x22] @ '':true}''"

definition generateZKProof :: "blockchain_service \<Rightarrow> string \<Rightarrow> string" where
  "generateZKProof svc json = take 32 (sha256_hex svc json)"

record certificate_data =
  cd_recipientAddress :: "string option"
  cd_courseId :: "string option"
  cd_courseName :: "string option"
  cd_userId :: "string option"
  cd_studentName :: "string option"
  cd_studentEmail :: "string option"
  cd_completionDate :: "nat option"
  cd_aiEvaluation :: "string option"
  cd_aiScore :: "string option"
  cd_ipfsHash :: "string option"
  cd_metadata :: bool
  cd_credentialType :: "nat option"
  cd_isSoulbound :: "bool option"
  cd_validUntil :: "nat option"

record mint_result =
  mr_tokenId :: string
  mr_transactionHash :: string
  mr_blockNumber :: nat
  mr_gasUsed :: string

definition default_to :: "'a \<Rightarrow> 'a option \<Rightarrow> 'a" where
  "default_to d v = (case v of None \<Rightarrow> d | Some x \<Rightarrow> x)"

definition failed_to_mint :: "js_exn \<Rightarrow> js_exn" where
  "failed_to_mint e = Error (''Failed to mint certificate: '' @ exn_message e)"

text \<open>
  \<open>mintCertificate\<close> (lines 704-821). The body runs inside \<open>try\<close>; the \<open>catch\<close> rethrows
  with the prefix "Failed to mint certificate: ". The pieces below are the lookup of the
  event in the receipt (lines 794-807), the estimate and submission (lines 758-791) and the
  preparation of the arguments (lines 706-756).
\<close>

text \<open>
  The events of the interface of the handle: the ABI of the constructor (lines 643-652)
  declares one, \<open>CredentialMinted\<close>. \<open>parseLog\<close> gives the description of a log of one of
  these events and \<open>null\<close> for any other log; reading \<open>name\<close> of \<open>null\<close> throws inside the
  \<open>try\<close> of the callback, which then answers \<open>false\<close>.
\<close>

definition contractABI_events :: "string list" where
  "contractABI_events = [''CredentialMinted'']"

definition parseLog :: "string \<times> string \<Rightarrow> (string \<times> string) option" where
  "parseLog l = (if fst l \<in> set contractABI_events then Some l else None)"

definition minted_event :: "receipt \<Rightarrow> (string \<times> string) option" where
  "minted_event rcpt =
     find (\<lambda>l. case parseLog l of None \<Rightarrow> False | Some parsed \<Rightarrow> fst parsed = ''CertificateMinted'')
          (r_logs rcpt)"

text \<open>
  \<open>gasEstimate * 1.2\<close> (line 772): the left operand is a bigint and the right one a
  number, and \<open>*\<close> on a bigint and a number throws a TypeError.
\<close>

definition bigint_times_number :: "nat \<Rightarrow> js_exn + nat" where
  "bigint_times_number gasEstimate =
     Inl (TypeError ''Cannot mix BigInt and other types, use explicit conversions'')"

definition mint_send ::
  "ethers_contract \<Rightarrow> mint_call \<Rightarrow> nat \<Rightarrow> (js_exn + mint_result) \<times> rpc list" where
  "mint_send con args gasLimit =
     (let trace = [EstimateGas ''mintCredential'',
                   SendTransaction ''mintCredential'' (Some gasLimit)]
      in (case send_mintCredential con args gasLimit of
            Inl e \<Rightarrow> (Inl (failed_to_mint e), trace)
          | Inr rcpt \<Rightarrow>
              (case minted_event rcpt of
                 None \<Rightarrow> (Inl (failed_to_mint (Error
                            ''CertificateMinted event not found in transaction receipt'')),
                          trace)
               | Some ev \<Rightarrow>
                   (Inr \<lparr> mr_tokenId = snd ev, mr_transactionHash = r_hash rcpt,
                          mr_blockNumber = r_blockNumber rcpt,
                          mr_gasUsed = r_gasUsed rcpt \<rparr>, trace))))"

definition mint_submit ::
  "ethers_contract \<Rightarrow> mint_call \<Rightarrow> (js_exn + mint_result) \<times> rpc list" where
  "mint_submit con args =
     (case estimateGas_mintCredential con args of
        Inl e \<Rightarrow> (Inl (failed_to_mint e), [EstimateGas ''mintCredential''])
      | Inr gasEstimate \<Rightarrow>
          (case bigint_times_number gasEstimate of
             Inl e \<Rightarrow> (Inl (failed_to_mint e), [EstimateGas ''mintCredential''])
           | Inr gasLimit \<Rightarrow> mint_send con args gasLimit))"

definition mint_arguments :: "blockchain_service \<Rightarrow> certificate_data \<Rightarrow> string \<Rightarrow> mint_call" where
  "mint_arguments svc cd ipfs =
     \<lparr> mc_to = cd_recipientAddress cd,
       mc_courseHash = generateHash svc (js_or (cd_courseId cd) (cd_courseName cd)),
       mc_studentHash = generateHash svc (cd_userId cd),
       mc_evaluationHash = generateHash svc (js_or (cd_aiEvaluation cd) (cd_aiScore cd)),
       mc_ipfsMetadata = ipfs,
       mc_credentialType = default_to 1 (cd_credentialType cd),
       mc_isSoulbound = default_to False (cd_isSoulbound cd),
       mc_validUntil = default_to 0 (cd_validUntil cd),
       mc_zkProof = generateZKProof svc zk_statement \<rparr>"

definition upload_if_given :: "blockchain_service \<Rightarrow> certificate_data \<Rightarrow> js_exn + string" where
  "upload_if_given svc cd =
     (if cd_metadata cd then
        (case cd_completionDate cd of
           None \<Rightarrow> Inl (TypeError ''Cannot read properties of undefined (reading 'toISOString')'')
         | Some d \<Rightarrow>
             (case uploadMetadata (IPFSService (svc_development svc) (svc_fallbackHash svc))
                     [(''courseName'', cd_courseName cd), (''studentName'', cd_studentName cd),
                      (''studentEmail'', cd_studentEmail cd), (''aiScore'', cd_aiScore cd),
                      (''aiEvaluation'', cd_aiEvaluation cd),
                      (''completionDate'', Some (date_ISO svc d)),
                      (''issuedAt'', Some (date_ISO svc (svc_clock svc)))] of
                Inl e \<Rightarrow> Inl e
              | Inr metadataResult \<Rightarrow> Inr (ur_hash metadataResult)))
      else Inr (js_String (js_or (cd_ipfsHash cd) (Some []))))"

definition adapter_mintCertificate ::
  "blockchain_service \<Rightarrow> certificate_data \<Rightarrow> (js_exn + mint_result) \<times> rpc list" where
  "adapter_mintCertificate svc cd =
     (case (if signer svc then contract svc else None) of
        None \<Rightarrow>
          (Inl (failed_to_mint (Error ''Contract not initialized or no signer available'')), [])
      | Some con \<Rightarrow>
          (case upload_if_given svc cd of
             Inl e \<Rightarrow> (Inl (failed_to_mint e), [])
           | Inr ipfs \<Rightarrow> mint_submit con (mint_arguments svc cd ipfs)))"

record verification =
  v_isValid :: bool
  v_owner :: "string option"
  v_isVerified :: bool
  v_error :: "string option"

text \<open>
  \<open>verifyCertificate\<close> (lines 906-929). In \<open>isVerified && owner.toLowerCase() ===
  expectedOwner.toLowerCase()\<close> the right operand is evaluated only when \<open>isVerified\<close> is true,
  and then \<open>expectedOwner.toLowerCase()\<close> throws a TypeError when \<open>expectedOwner\<close> is
  \<open>undefined\<close>. Every exception ends in the \<open>catch\<close> branch.
\<close>

definition verify_failed :: "js_exn \<Rightarrow> verification" where
  "verify_failed e = \<lparr> v_isValid = False, v_owner = None, v_isVerified = False,
                       v_error = Some (exn_message e) \<rparr>"

definition adapter_verifyCertificate ::
  "blockchain_service \<Rightarrow> string \<Rightarrow> string option \<Rightarrow> verification" where
  "adapter_verifyCertificate svc tokenId expectedOwner =
     (case contract svc of
        None \<Rightarrow> verify_failed (Error ''Contract not initialized'')
      | Some con \<Rightarrow>
          (case call_ownerOf con tokenId of
             Inl e \<Rightarrow> verify_failed e
           | Inr owner \<Rightarrow>
               (case call_verifyCertificate con tokenId of
                  Inl e \<Rightarrow> verify_failed e
                | Inr verified \<Rightarrow>
                    if \<not> verified
                      then \<lparr> v_isValid = False, v_owner = Some owner, v_isVerified = verified,
                             v_error = None \<rparr>
                    else (case expectedOwner of
                       None \<Rightarrow> verify_failed (TypeError
                         ''Cannot read properties of undefined (reading 'toLowerCase')'')
                     | Some expected \<Rightarrow>
                         \<lparr> v_isValid = (toLowerCase owner = toLowerCase expected),
                           v_owner = Some owner, v_isVerified = verified, v_error = None \<rparr>))))"

record transfer_result =
  tr_success :: bool
  tr_transactionHash :: string
  tr_blockNumber :: nat

text \<open>\<open>transferCertificate\<close> (lines 932-950).\<close>

definition adapter_transferCertificate ::
  "blockchain_service \<Rightarrow> string \<Rightarrow> string \<Rightarrow> string \<Rightarrow> (js_exn + transfer_result) \<times> rpc list" where
  "adapter_transferCertificate svc src dst tokenId =
     (case (if signer svc then contract svc else None) of
        None \<Rightarrow> (Inl (Error (''Failed to transfer certificate: ''
                    @ ''Contract not initialized or no signer available'')), [])
      | Some con \<Rightarrow>
          (case send_transferFrom con src dst tokenId of
             Inl e \<Rightarrow> (Inl (Error (''Failed to transfer certificate: '' @ exn_message e)),
                       [SendTransaction ''transferFrom'' None])
           | Inr rcpt \<Rightarrow>
               (Inr \<lparr> tr_success = True, tr_transactionHash = r_hash rcpt,
                      tr_blockNumber = r_blockNumber rcpt \<rparr>,
                [SendTransaction ''transferFrom'' None])))"

section \<open>The certificate controller\<close>

text \<open>
  Documents as the handlers read and write them. A populated reference is the referenced
  document (courses are deactivated, never deleted; a deleted user's enrollments are
  deleted with the user). Dates are numbers. The enrollment collection is a list in
  natural order; \<open>findOne\<close> returns the first match and \<open>save\<close> replaces the document with
  the same \<open>_id\<close>.
\<close>

record user_doc =
  u_id :: string
  u_name :: string
  u_email :: string
  u_walletAddress :: "string option"
  u_role :: string
  u_companyName :: "string option"

record course_doc =
  c_id :: string
  c_title :: string
  c_code :: "string option"
  c_description :: "string option"
  c_instructorName :: "string option"

record final_evaluation =
  fe_score :: int
  fe_passed :: bool
  fe_feedback :: "string option"

record certificate_ref =
  ref_tokenId :: "string option"
  ref_transactionHash :: "string option"
  ref_mintedAt :: "nat option"
  ref_claimed :: bool
  ref_claimedAt :: "nat option"
  ref_claimToken :: "string option"

record enrollment =
  e_id :: string
  e_user :: user_doc
  e_course :: course_doc
  e_status :: string
  e_finalEvaluation :: "final_evaluation option"
  e_certificate :: certificate_ref
  e_completedAt :: "nat option"

record certificate_doc =
  cert_tokenId :: string
  cert_contractAddress :: "string option"
  cert_studentName :: string
  cert_studentEmail :: string
  cert_courseId :: string
  cert_courseName :: string
  cert_courseCode :: "string option"
  cert_aiScore :: int
  cert_aiEvaluation :: "string option"
  cert_issuerId :: string
  cert_issuerName :: string
  cert_recipientId :: string
  cert_recipientAddress :: "string option"
  cert_ipfsHash :: string
  cert_courseHash :: string
  cert_studentHash :: string
  cert_evaluationHash :: string
  cert_transactionHash :: string
  cert_blockNumber :: nat
  cert_gasUsed :: string
  cert_consentGiven :: bool
  cert_consentDate :: nat


record 'a response =
  http_status :: nat
  success :: bool
  message :: "string option"
  payload :: "'a option"

definition failure :: "nat \<Rightarrow> string \<Rightarrow> 'a response" where
  "failure code msg = \<lparr> http_status = code, success = False, message = Some msg, payload = None \<rparr>"

text \<open>
  What the handlers reach outside the controller: the adapter, what the IPFS service reads
  of the environment, \<open>certificate.save()\<close> (validation and the unique index on \<open>tokenId\<close>
  decide), the mailer, \<open>crypto.randomBytes(32).toString('hex')\<close>, \<open>String\<close> of a number,
  the clock and \<open>process.env.CONTRACT_ADDRESS\<close>.
\<close>

record controller_env =
  blockchainService :: blockchain_service
  env_development :: bool
  env_fallbackHash :: string
  certificate_save :: "certificate_doc \<Rightarrow> certificate_doc list \<Rightarrow> js_exn + certificate_doc list"
  sendNFTClaimEmail :: "string \<Rightarrow> string \<Rightarrow> js_exn + unit"
  randomBytes_hex :: string
  number_String :: "int \<Rightarrow> string"
  env_now :: nat
  CONTRACT_ADDRESS :: "string option"


definition enrollment_save :: "enrollment \<Rightarrow> enrollment list \<Rightarrow> enrollment list" where
  "enrollment_save e db = map (\<lambda>d. if e_id d = e_id e then e else d) db"

subsection \<open>claimCertificate (lines 627-676)\<close>

record claim_summary =
  cs_tokenId :: "string option"
  cs_courseName :: string
  cs_studentName :: string
  cs_completionDate :: "nat option"
  cs_transactionHash :: "string option"

text \<open>
  The filter of the query of lines 639-642, on the documents as they are stored. The
  handler that issues the token writes through the Enrollment model, which keeps no
  \<open>claimToken\<close> (see \<open>strict_certificate\<close> below).
\<close>

definition unclaimed_with :: "string \<Rightarrow> enrollment \<Rightarrow> bool" where
  "unclaimed_with t d \<longleftrightarrow> ref_claimToken (e_certificate d) = Some t
                            \<and> ref_claimed (e_certificate d) = False"

definition claimCertificate ::
  "nat \<Rightarrow> enrollment list \<Rightarrow> string option \<Rightarrow> enrollment list \<times> claim_summary response" where
  "claimCertificate clock db token =
     (case token of
        None \<Rightarrow> (db, failure 400 ''Claim token is required'')
      | Some t \<Rightarrow>
          if t = [] then (db, failure 400 ''Claim token is required'')
          else (case find (unclaimed_with t) db of
             None \<Rightarrow> (db, failure 404 ''Invalid or expired claim token'')
           | Some found \<Rightarrow>
               (let claimed = found\<lparr> e_certificate := (e_certificate found)
                                \<lparr> ref_claimed := True, ref_claimedAt := Some clock \<rparr> \<rparr>
                in (enrollment_save claimed db,
                    \<lparr> http_status = 200, success = True,
                      message = Some ''Certificate claimed successfully'',
                      payload = Some \<lparr> cs_tokenId = ref_tokenId (e_certificate claimed),
                                       cs_courseName = c_title (e_course claimed),
                                       cs_studentName = u_name (e_user claimed),
                                       cs_completionDate = e_completedAt claimed,
                                       cs_transactionHash =
                                         ref_transactionHash (e_certificate claimed) \<rparr> \<rparr>))))"

subsection \<open>verifyCertificate (lines 793-845)\<close>

record verify_metadata =
  vm_courseName :: string
  vm_studentName :: string
  vm_studentEmail :: string
  vm_instructorName :: "string option"
  vm_completionDate :: "nat option"
  vm_score :: "int option"
  vm_mintedAt :: "nat option"

record verify_view =
  vv_tokenId :: string
  vv_isValid :: bool
  vv_owner :: "string option"
  vv_isVerified :: bool
  vv_blockchainVerified :: bool
  vv_databaseVerified :: bool
  vv_metadata :: "verify_metadata option"

text \<open>
  The request of \<open>GET /certificates/:tokenId/verify\<close>. The route (part_006, lines 119-122)
  installs no authentication middleware, and the handler never reads \<open>req.user\<close>; the
  caller is part of the request all the same, to say what the response does not depend on.
\<close>

record verify_request =
  vr_tokenId :: string
  vr_ownerAddress :: "string option"
  vr_caller :: "user_doc option"

definition verifyCertificate ::
  "controller_env \<Rightarrow> enrollment list \<Rightarrow> verify_request \<Rightarrow> verify_view response" where
  "verifyCertificate env db req =
     (let verification = adapter_verifyCertificate (blockchainService env)
                           (vr_tokenId req) (vr_ownerAddress req);
          found = find (\<lambda>d. ref_tokenId (e_certificate d) = Some (vr_tokenId req)) db;
          view = \<lparr> vv_tokenId = vr_tokenId req, vv_isValid = v_isValid verification,
                   vv_owner = v_owner verification, vv_isVerified = v_isVerified verification,
                   vv_blockchainVerified = v_isValid verification,
                   vv_databaseVerified = (found \<noteq> None),
                   vv_metadata =
                     (case found of
                        None \<Rightarrow> None
                      | Some e \<Rightarrow>
                          Some \<lparr> vm_courseName = c_title (e_course e),
                                 vm_studentName = u_name (e_user e),
                                 vm_studentEmail = u_email (e_user e),
                                 vm_instructorName = c_instructorName (e_course e),
                                 vm_completionDate = e_completedAt e,
                                 vm_score = map_option fe_score (e_finalEvaluation e),
                                 vm_mintedAt = ref_mintedAt (e_certificate e) \<rparr>) \<rparr>
      in \<lparr> http_status = 200, success = True, message = None, payload = Some view \<rparr>)"

text \<open>The callers that the permission filter of \<open>getCertificate\<close> (lines 742-771) lets through.\<close>

definition related_caller :: "user_doc option \<Rightarrow> enrollment \<Rightarrow> certificate_doc option \<Rightarrow> bool" where
  "related_caller caller e cert =
     (case caller of
        None \<Rightarrow> False
      | Some u \<Rightarrow> u_id u = u_id (e_user e) \<or> u_role u = ''admin''
                  \<or> (case cert of None \<Rightarrow> False | Some c \<Rightarrow> cert_issuerId c = u_id u))"

subsection \<open>mintCertificate (lines 448-624)\<close>










text \<open>
  The paths that the Enrollment schema declares under \<open>certificate\<close> (part_005, lines
  115-125). The schema is strict, as Mongoose schemas are unless they say otherwise: a
  path of an assigned object that the schema does not declare is dropped.
\<close>

definition certificate_paths :: "string list" where
  "certificate_paths = [''tokenId'', ''transactionHash'', ''ipfsHash'', ''mintedAt'', ''claimed'',
     ''claimedAt'']"

definition strict_certificate :: "certificate_ref \<Rightarrow> certificate_ref" where
  "strict_certificate r =
     (if ''claimToken'' \<in> set certificate_paths then r else r\<lparr> ref_claimToken := None \<rparr>)"

text \<open>Lines 579-587: the assignment to \<open>enrollment.certificate\<close>, as the model keeps it.\<close>

definition minted_enrollment :: "controller_env \<Rightarrow> enrollment \<Rightarrow> mint_result \<Rightarrow> enrollment" where
  "minted_enrollment env e mintResult =
     e\<lparr> e_certificate := strict_certificate
          \<lparr> ref_tokenId = Some (mr_tokenId mintResult),
            ref_transactionHash = Some (mr_transactionHash mintResult),
            ref_mintedAt = Some (env_now env), ref_claimed = False, ref_claimedAt = None,
            ref_claimToken = Some (randomBytes_hex env) \<rparr> \<rparr>"






subsection \<open>Sample documents and services\<close>

definition receipt0 :: receipt where
  "receipt0 = \<lparr> r_hash = ''0xabc'', r_blockNumber = 7, r_gasUsed = ''90000'',
                 r_logs = [(''Transfer'', ''1''), (''CredentialMinted'', ''1'')] \<rparr>"

definition contract0 :: ethers_contract where
  "contract0 = \<lparr> estimateGas_mintCredential = (\<lambda>_. Inr 100000),
     send_mintCredential = (\<lambda>_ _. Inr receipt0),
     send_transferFrom = (\<lambda>_ _ _. Inr receipt0),
     call_ownerOf = (\<lambda>_. Inr ''0xAa01''),
     call_verifyCertificate = (\<lambda>_. Inr True) \<rparr>"

definition svc0 :: blockchain_service where
  "svc0 = \<lparr> contract = Some contract0, signer = True, sha256_hex = (\<lambda>x. x),
            date_ISO = (\<lambda>_. ''2024-01-01T00:00:00.000Z''), svc_clock = 5,
            svc_development = False, svc_fallbackHash = ''fallback_5_k3'' \<rparr>"

definition user0 :: user_doc where
  "user0 = \<lparr> u_id = ''u1'', u_name = ''Kim'', u_email = ''kim@example.com'',
             u_walletAddress = Some ''0xAa01'', u_role = ''student'', u_companyName = None \<rparr>"

definition course0 :: course_doc where
  "course0 = \<lparr> c_id = ''c1'', c_title = ''Safety'', c_code = None, c_description = None,
               c_instructorName = None \<rparr>"

definition enrollment0 :: enrollment where
  "enrollment0 = \<lparr> e_id = ''e1'', e_user = user0, e_course = course0, e_status = ''completed'',
     e_finalEvaluation = Some \<lparr> fe_score = 90, fe_passed = True, fe_feedback = Some ''good'' \<rparr>,
     e_certificate = \<lparr> ref_tokenId = None, ref_transactionHash = None, ref_mintedAt = None,
                        ref_claimed = False, ref_claimedAt = None, ref_claimToken = None \<rparr>,
     e_completedAt = Some 3 \<rparr>"

definition env0 :: controller_env where
  "env0 = \<lparr> blockchainService = svc0, env_development = False,
            env_fallbackHash = ''fallback_5_k3'',
            certificate_save = (\<lambda>c cs. Inr (cs @ [c])), sendNFTClaimEmail = (\<lambda>_ _. Inr ()),
            randomBytes_hex = ''5f2a'', number_String = (\<lambda>_. ''90''), env_now = 5,
            CONTRACT_ADDRESS = Some ''0xC0'' \<rparr>"


definition enrollment1 :: enrollment where
  "enrollment1 = enrollment0\<lparr> e_certificate :=
     \<lparr> ref_tokenId = Some ''1'', ref_transactionHash = Some ''0xabc'', ref_mintedAt = Some 5,
       ref_claimed = False, ref_claimedAt = None, ref_claimToken = None \<rparr> \<rparr>"


definition mintResult0 :: mint_result where
  "mintResult0 = \<lparr> mr_tokenId = ''1'', mr_transactionHash = ''0xabc'', mr_blockNumber = 7,
                     mr_gasUsed = ''90000'' \<rparr>"

section \<open>Properties of the contract\<close>

lemma word_succ_not_le:
  fixes x :: "'a::len word"
  assumes "x + 1 \<noteq> 0"
  shows "\<not> x + 1 \<le> x"
proof
  assume le: "x + 1 \<le> x"
  have ux: "unat x < 2 ^ LENGTH('a)" by (rule unsigned_less)
  have eq: "unat (x + 1) = (unat x + 1) mod 2 ^ LENGTH('a)"
    by (simp add: unat_word_ariths)
  show False
  proof (cases "unat x + 1 < 2 ^ LENGTH('a)")
    case True
    then have "unat (x + 1) = unat x + 1" using eq by simp
    with le show False by (simp add: word_le_nat_alt)
  next
    case False
    with ux have "unat x + 1 = 2 ^ LENGTH('a)" by linarith
    then have "unat (x + 1) = 0" using eq by simp
    then have "x + 1 = 0" by (simp add: unat_eq_0)
    with assms show False by simp
  qed
qed

lemma wf_fresh:
  assumes "well_formed s"
  shows "owners s (tokenIdCounter s + 1) = 0" and "\<not> revokedCredentials s (tokenIdCounter s + 1)"
  using assms word_succ_not_le [of "tokenIdCounter s"] unfolding well_formed_def by blast+

lemmas erc721_defs = safeMint_def mint_erc721_def beforeTokenTransfer_def burn_erc721_def
  transfer_erc721_def transferFrom_erc721_def safeTransferFrom_erc721_def ownerOf_def
  isApprovedOrOwner_def exists_token_def

lemma safeMint_Inr:
  assumes "safeMint c s to tokenId = Inr s'"
  shows "s' = s\<lparr> balances := (balances s)(to := balances s to + 1),
                  owners := (owners s)(tokenId := to) \<rparr>
    \<and> to \<noteq> 0 \<and> owners s tokenId = 0"
  using assms by (auto simp: erc721_defs split: if_splits sum.splits)

lemma mintSingleCredential_Inr:
  assumes "mintSingleCredential k c s to cH sH eH ipfs ty sb vu zk = Inr (s', tokenId)"
  shows "tokenId = tokenIdCounter s + 1"
    and "tokenIdCounter s' = tokenIdCounter s + 1"
    and "usedHashes s' = (usedHashes s)(credentialHash k cH sH := True)"
    and "owners s' = (owners s)(tokenId := to)"
    and "owners s tokenId = 0" and "to \<noteq> 0"
    and "revokedCredentials s' = revokedCredentials s"
    and "roles s' = roles s" and "paused s' = paused s"
    and "\<And>t. t \<noteq> tokenId \<Longrightarrow> credentials s' t = credentials s t"
    and "isSoulbound (credentials s' tokenId) = sb"
    and "isRevocable (credentials s' tokenId) = (\<not> sb)"
    and "\<not> usedHashes s (credentialHash k cH sH)"
  using assms
  by (auto simp: mintSingleCredential_def Let_def split: if_splits sum.splits dest!: safeMint_Inr)

lemma batch_loop_usedHashes:
  "batch_loop k c req is s = Inr s' \<Longrightarrow> usedHashes s h \<Longrightarrow> usedHashes s' h"
proof (induction "is" arbitrary: s)
  case Nil
  then show ?case by simp
next
  case (Cons i rest)
  from Cons.prems(1) obtain s1 where b: "batch_item k c req i s = Inr s1"
    and l: "batch_loop k c req rest s1 = Inr s'"
    by (auto split: sum.splits)
  from b have "usedHashes s1 h" using Cons.prems(2)
    by (auto simp: batch_item_def split: if_splits sum.splits dest!: mintSingleCredential_Inr(3))
  then show ?case using Cons.IH [OF l] by simp
qed

lemma step_usedHashes:
  assumes "step k c t s = Inr s'" and "usedHashes s h"
  shows "usedHashes s' h"
proof (cases t)
  case (MintCredential to cH sH eH ipfs ty sb vu zk)
  then show ?thesis using assms
    by (auto simp: mintCredential_def split: if_splits sum.splits dest!: mintSingleCredential_Inr(3))
next
  case (BatchMintCredentials req)
  then show ?thesis using assms
    by (auto simp: batchMintCredentials_def split: if_splits dest: batch_loop_usedHashes)
next
  case (Burn tokenId)
  then show ?thesis using assms
    by (auto simp: burn_def Let_def removeFromIssuerList_def erc721_defs split: if_splits sum.splits)
qed (use assms in \<open>auto simp: revokeCredential_def transferFrom_def safeTransferFrom_def
      setCredentialVerification_def setEmergencyPause_def approve_def setApprovalForAll_def
      grantRole_def revokeRole_def renounceRole_def erc721_defs split: if_splits sum.splits\<close>)

lemma apply_tx_usedHashes: "usedHashes s h \<Longrightarrow> usedHashes (apply_tx k s ct) h"
  by (auto simp: apply_tx_def split: sum.splits dest: step_usedHashes)

lemma run_usedHashes: "usedHashes s h \<Longrightarrow> usedHashes (run k s txs) h"
  unfolding run_def by (induction txs arbitrary: s) (simp_all add: apply_tx_usedHashes)

lemma mintCredential_guarded:
  "mint_guards s c to cH sH ipfs ty vu \<Longrightarrow>
   mintCredential k c s to cH sH eH ipfs ty sb vu zk =
   mintSingleCredential k c s to cH sH eH ipfs ty sb vu zk"
  by (simp add: mint_guards_def mintCredential_def onlyRole_def)

lemma mintSingleCredential_succeeds:
  assumes "well_formed s" and "\<not> paused s" and "to \<noteq> 0" and "vu = 0 \<or> block_timestamp c < vu"
    and "onERC721Received c to" and "\<not> usedHashes s (credentialHash k cH sH)"
  shows "\<exists>s1. mintSingleCredential k c s to cH sH eH ipfs ty sb vu zk
           = Inr (s1, tokenIdCounter s + 1)"
proof -
  from assms(4) have "\<not> (0 < vu \<and> vu < block_timestamp c)" by auto
  then show ?thesis
    using assms wf_fresh [OF assms(1)]
    by (simp add: mintSingleCredential_def Let_def erc721_defs)
qed

lemma mintSingleCredential_duplicate:
  "usedHashes s (credentialHash k cH sH) \<Longrightarrow>
   mintSingleCredential k c s to cH sH eH ipfs ty sb vu zk = Inl (Revert ''Credential already exists'')"
  by (simp add: mintSingleCredential_def)

text \<open>
  On well-formed storage, a \<open>mintCredential\<close> call that passes the requirements, whose
  recipient accepts the token and whose commitment is not in the registry, succeeds and
  assigns the next counter value, an id that had no owner. After it, and after any further
  transactions, every \<open>mintCredential\<close> call with the same pair that passes the
  requirements reverts with "Credential already exists", and the storage stays as it was.
\<close>

lemma issuance_on_unused_commitment:
  assumes "well_formed s"
    and "mint_guards s c1 to1 cH sH ipfs1 ty1 vu1"
    and "onERC721Received c1 to1"
    and "\<not> usedHashes s (credentialHash k cH sH)"
  shows "\<exists>s1 tokenId.
      mintCredential k c1 s to1 cH sH e1 ipfs1 ty1 sb1 vu1 z1 = Inr (s1, tokenId)
    \<and> tokenId = tokenIdCounter s + 1 \<and> \<not> exists_token s tokenId
    \<and> ownerOf s1 tokenId = Inr to1
    \<and> (\<forall>txs c2 to2 e2 ipfs2 ty2 sb2 vu2 z2.
         mint_guards (run k s1 txs) c2 to2 cH sH ipfs2 ty2 vu2 \<longrightarrow>
           mintCredential k c2 (run k s1 txs) to2 cH sH e2 ipfs2 ty2 sb2 vu2 z2
             = Inl (Revert ''Credential already exists'')
         \<and> apply_tx k (run k s1 txs) (c2, MintCredential to2 cH sH e2 ipfs2 ty2 sb2 vu2 z2)
             = run k s1 txs)"
proof -
  from assms(2) have g: "\<not> paused s" "to1 \<noteq> 0" "vu1 = 0 \<or> block_timestamp c1 < vu1"
    by (simp_all add: mint_guards_def)
  from mintSingleCredential_succeeds [OF assms(1) g assms(3,4)]
  obtain s1 where m: "mintSingleCredential k c1 s to1 cH sH e1 ipfs1 ty1 sb1 vu1 z1
      = Inr (s1, tokenIdCounter s + 1)" by blast
  note f = mintSingleCredential_Inr [OF m]
  have used: "usedHashes s1 (credentialHash k cH sH)" using f(3) by simp
  have own: "ownerOf s1 (tokenIdCounter s + 1) = Inr to1"
    using f(4,6) by (simp add: ownerOf_def)
  have second: "mintCredential k c2 (run k s1 txs) to2 cH sH e2 ipfs2 ty2 sb2 vu2 z2
             = Inl (Revert ''Credential already exists'')"
    if "mint_guards (run k s1 txs) c2 to2 cH sH ipfs2 ty2 vu2"
    for txs c2 to2 e2 ipfs2 ty2 sb2 vu2 z2
    using that run_usedHashes [OF used, of k txs]
    by (simp add: mintCredential_guarded mintSingleCredential_duplicate)
  show ?thesis
    using m f(5) own second
    by (simp add: mintCredential_guarded [OF assms(2)] exists_token_def apply_tx_def)
qed

lemma wf_s0: "well_formed s0"
  by (simp add: well_formed_def s0_def initialize_def zero_state_def)

lemma guards_s0: "mint_guards s0 deployer0 20 ''c1'' ''s1'' ''Qm'' 1 0"
  by (simp add: mint_guards_def s0_def initialize_def zero_state_def deployer0_def)

lemma mintSingleCredential_soulbound_held:
  assumes "mintSingleCredential k c s to cH sH eH ipfs ty sb vu zk = Inr (s', t)"
    and "soulbound_held s tokenId a"
  shows "soulbound_held s' tokenId a"
proof -
  note f = mintSingleCredential_Inr [OF assms(1)]
  from assms(2) f(5) have "tokenId \<noteq> t" by (auto simp: soulbound_held_def)
  with assms(2) f(4) f(10) [of tokenId] show ?thesis by (simp add: soulbound_held_def)
qed

lemma batch_loop_soulbound_held:
  "batch_loop k c req is s = Inr s' \<Longrightarrow> soulbound_held s tokenId a \<Longrightarrow> soulbound_held s' tokenId a"
proof (induction "is" arbitrary: s)
  case Nil
  then show ?case by simp
next
  case (Cons i rest)
  from Cons.prems(1) obtain s1 where b: "batch_item k c req i s = Inr s1"
    and l: "batch_loop k c req rest s1 = Inr s'"
    by (auto split: sum.splits)
  from b obtain t where "mintSingleCredential k c s
                  (recipients req ! i) (courseHashes req ! i) (studentHashes req ! i)
                  (evaluationHashes req ! i) (ipfsMetadataList req ! i)
                  (credentialTypes req ! i) (isSoulboundList req ! i)
                  (validUntils req ! i) (zkProofs req ! i) = Inr (s1, t)"
    by (auto simp: batch_item_def split: if_splits sum.splits)
  then have "soulbound_held s1 tokenId a"
    using Cons.prems(2) by (rule mintSingleCredential_soulbound_held)
  then show ?case using Cons.IH [OF l] by simp
qed

lemma step_soulbound_held:
  assumes "step k c t s = Inr s'" and "soulbound_held s tokenId a"
  shows "soulbound_held s' tokenId a"
proof (cases t)
  case (MintCredential to cH sH eH ipfs ty sb vu zk)
  then show ?thesis using assms
    by (auto simp: mintCredential_def split: if_splits sum.splits
             dest: mintSingleCredential_soulbound_held)
next
  case (BatchMintCredentials req)
  then show ?thesis using assms
    by (auto simp: batchMintCredentials_def split: if_splits dest: batch_loop_soulbound_held)
next
  case (Burn t')
  then show ?thesis using assms
    by (auto simp: soulbound_held_def burn_def Let_def removeFromIssuerList_def erc721_defs
             split: if_splits sum.splits)
next
  case (TransferFrom src dst t')
  then show ?thesis using assms
    by (auto simp: soulbound_held_def transferFrom_def erc721_defs split: if_splits sum.splits)
next
  case (SafeTransferFrom src dst t')
  then show ?thesis using assms
    by (auto simp: soulbound_held_def safeTransferFrom_def erc721_defs split: if_splits sum.splits)
qed (use assms in \<open>auto simp: soulbound_held_def revokeCredential_def
      setCredentialVerification_def setEmergencyPause_def approve_def setApprovalForAll_def
      grantRole_def revokeRole_def renounceRole_def erc721_defs split: if_splits sum.splits\<close>)

lemma run_soulbound_held:
  "soulbound_held s tokenId a \<Longrightarrow> soulbound_held (run k s txs) tokenId a"
  unfolding run_def
  by (induction txs arbitrary: s)
     (auto simp: apply_tx_def split: sum.splits dest: step_soulbound_held)

lemma mintCredential_is_single:
  "mintCredential k c s to cH sH eH ipfs ty sb vu zk = Inr r \<Longrightarrow>
   mintSingleCredential k c s to cH sH eH ipfs ty sb vu zk = Inr r"
  by (auto simp: mintCredential_def split: if_splits)

text \<open>
  C4. A credential minted with \<open>isSoulbound = true\<close> keeps the owner recorded at mint time
  through every sequence of transactions: \<open>transferFrom\<close> and \<open>safeTransferFrom\<close> on it
  revert with "Soulbound tokens cannot be transferred" for every caller, sender and
  recipient, and \<open>burn\<close> and \<open>revokeCredential\<close> on it revert as well.
\<close>

theorem soulbound_owner_never_changes:
  assumes "mintCredential k c s to cH sH eH ipfs ty True vu zk = Inr (s1, tokenId)
         \<or> mintSingleCredential k c s to cH sH eH ipfs ty True vu zk = Inr (s1, tokenId)"
  shows "ownerOf (run k s1 txs) tokenId = Inr to
    \<and> transferFrom c' (run k s1 txs) from to' tokenId
        = Inl (Revert ''Soulbound tokens cannot be transferred'')
    \<and> safeTransferFrom c' (run k s1 txs) from to' tokenId
        = Inl (Revert ''Soulbound tokens cannot be transferred'')
    \<and> isl (burn c' (run k s1 txs) tokenId)
    \<and> isl (revokeCredential c' (run k s1 txs) tokenId reason)"
proof -
  from assms have m: "mintSingleCredential k c s to cH sH eH ipfs ty True vu zk = Inr (s1, tokenId)"
    by (auto dest: mintCredential_is_single)
  note f = mintSingleCredential_Inr [OF m]
  have "soulbound_held s1 tokenId to"
    using f(4,6,11,12) by (simp add: soulbound_held_def)
  then have h: "soulbound_held (run k s1 txs) tokenId to" by (rule run_soulbound_held)
  then show ?thesis
    by (auto simp: soulbound_held_def ownerOf_def transferFrom_def safeTransferFrom_def
          burn_def Let_def isApprovedOrOwner_def revokeCredential_def exists_token_def)
qed

theorem soulbound_owner_never_changes_witness:
  "\<exists>s1. mintCredential k0 deployer0 s0 20 ''c1'' ''s1'' ''e1'' ''Qm'' 1 True 0 0 = Inr (s1, 1)
     \<and> ownerOf (run k0 s1 [(holder0, TransferFrom 20 30 1), (holder0, Burn 1)]) 1 = Inr 20
     \<and> transferFrom deployer0 (run k0 s1 [(holder0, TransferFrom 20 30 1), (holder0, Burn 1)]) 20 10 1
         = Inl (Revert ''Soulbound tokens cannot be transferred'')"
proof -
  have r: "onERC721Received deployer0 20" by (simp add: deployer0_def)
  have u: "\<not> usedHashes s0 (credentialHash k0 ''c1'' ''s1'')"
    by (simp add: s0_def initialize_def zero_state_def)
  have g: "\<not> paused s0" "(20::address) \<noteq> 0" "(0::uint256) = 0 \<or> block_timestamp deployer0 < 0"
    by (simp_all add: s0_def initialize_def zero_state_def)
  from mintSingleCredential_succeeds [OF wf_s0 g r u]
  obtain s1 where "mintSingleCredential k0 deployer0 s0 20 ''c1'' ''s1'' ''e1'' ''Qm'' 1 True 0 0
     = Inr (s1, tokenIdCounter s0 + 1)" by blast
  moreover have "tokenIdCounter s0 + 1 = 1"
    by (simp add: s0_def initialize_def zero_state_def)
  ultimately have m: "mintCredential k0 deployer0 s0 20 ''c1'' ''s1'' ''e1'' ''Qm'' 1 True 0 0 = Inr (s1, 1)"
    by (simp add: mintCredential_guarded [OF guards_s0])
  from soulbound_owner_never_changes [OF disjI1 [OF m]] m show ?thesis by blast
qed

lemmas contract_defs = run_def apply_tx_def mintCredential_def mintSingleCredential_def
  credentialHash_def onlyRole_def revokeCredential_def burn_def removeFromIssuerList_def
  transferFrom_def safeTransferFrom_def verifyCredential_def getCredential_def erc721_defs

lemmas sample_defs = s0_def initialize_def zero_state_def deployer0_def holder0_def k0_def
  mint_tx0_def

lemma s_minted_facts:
  "owners s_minted 1 = 20" "isRevocable (credentials s_minted 1)"
  "\<not> isSoulbound (credentials s_minted 1)" "\<not> paused s_minted"
  "\<not> revokedCredentials s_minted 1" "validUntil (credentials s_minted 1) = 0"
  "usedHashes s_minted (credentialHash k0 ''c1'' ''s1'')"
  "tokenApprovals s_minted 1 = 0" "issuer (credentials s_minted 1) = 10"
  "roles s_minted ISSUER_ROLE 10"
  by (simp_all add: s_minted_def contract_defs sample_defs Let_def)

lemma s_revoked_facts:
  "owners s_revoked 1 = 20" "isRevocable (credentials s_revoked 1)"
  "\<not> isSoulbound (credentials s_revoked 1)" "\<not> paused s_revoked"
  "revokedCredentials s_revoked 1"
  using s_minted_facts
  by (simp_all add: s_revoked_def run_def apply_tx_def revokeCredential_def onlyRole_def
        exists_token_def deployer0_def)

lemma burn_Inr:
  assumes "burn c s tokenId = Inr s'"
  shows "owners s' = (owners s)(tokenId := 0)"
    and "credentials s' = (credentials s)(tokenId := zero_credential)"
    and "revokedCredentials s' = (revokedCredentials s)(tokenId := False)"
    and "usedHashes s' = usedHashes s"
    and "\<not> revokedCredentials s tokenId"
    and "isRevocable (credentials s tokenId)"
    and "roles s' = roles s" and "paused s' = paused s"
  using assms
  by (auto simp: burn_def Let_def removeFromIssuerList_def erc721_defs
           split: if_splits sum.splits)

lemma burn_active:
  assumes "may_burn s c tokenId" and "\<not> revokedCredentials s tokenId"
    and "\<not> expired c s tokenId"
  shows "\<exists>s'. burn c s tokenId = Inr s'"
  using assms
  by (auto simp: may_burn_def expired_def burn_def Let_def erc721_defs)

lemma burn_revoked:
  assumes "may_burn s c tokenId" and "revokedCredentials s tokenId"
  shows "burn c s tokenId = Inl (Revert ''Revoked credential cannot be transferred'')"
  using assms
  by (auto simp: may_burn_def burn_def Let_def erc721_defs)

text \<open>Well-formedness is kept by every transaction while the counter has room.\<close>

lemma unat_succ:
  fixes x :: uint256
  assumes "unat x + 1 < 2 ^ 256"
  shows "unat (x + 1) = unat x + 1"
  using assms by (simp add: unat_word_ariths)

lemma mintSingleCredential_wf:
  assumes "well_formed s" and "room s 1"
    and "mintSingleCredential k c s to cH sH eH ipfs ty sb vu zk = Inr (s', t)"
  shows "well_formed s'" and "unat (tokenIdCounter s') = unat (tokenIdCounter s) + 1"
proof -
  note f = mintSingleCredential_Inr [OF assms(3)]
  from assms(2) have u: "unat (tokenIdCounter s + 1) = unat (tokenIdCounter s) + 1"
    by (simp add: room_def unat_succ)
  then show "unat (tokenIdCounter s') = unat (tokenIdCounter s) + 1" using f(2) by simp
  have nz: "tokenIdCounter s + 1 \<noteq> 0" using u by (metis Suc_eq_plus1 nat.distinct(1) unat_0 add.commute)
  have le: "tokenIdCounter s \<le> tokenIdCounter s + 1" using u by (simp add: word_le_nat_alt)
  show "well_formed s'"
    unfolding well_formed_def
  proof (intro allI impI)
    fix tokenId
    assume a: "owners s' tokenId \<noteq> 0 \<or> revokedCredentials s' tokenId"
    show "tokenId \<noteq> 0 \<and> tokenId \<le> tokenIdCounter s'"
    proof (cases "tokenId = t")
      case True
      with f(1,2) nz show ?thesis by simp
    next
      case False
      with a f(4,7) have "owners s tokenId \<noteq> 0 \<or> revokedCredentials s tokenId" by simp
      with assms(1) have "tokenId \<noteq> 0 \<and> tokenId \<le> tokenIdCounter s" unfolding well_formed_def by blast
      with le f(2) show ?thesis by (auto intro: order_trans)
    qed
  qed
qed

lemma batch_loop_wf:
  "well_formed s \<Longrightarrow> room s (length is) \<Longrightarrow> batch_loop k c req is s = Inr s' \<Longrightarrow>
   well_formed s' \<and> unat (tokenIdCounter s') = unat (tokenIdCounter s) + length is"
proof (induction "is" arbitrary: s)
  case Nil
  then show ?case by simp
next
  case (Cons i rest)
  from Cons.prems(3) obtain s1 where b: "batch_item k c req i s = Inr s1"
    and l: "batch_loop k c req rest s1 = Inr s'"
    by (auto split: sum.splits)
  from b obtain t where m: "mintSingleCredential k c s
                  (recipients req ! i) (courseHashes req ! i) (studentHashes req ! i)
                  (evaluationHashes req ! i) (ipfsMetadataList req ! i)
                  (credentialTypes req ! i) (isSoulboundList req ! i)
                  (validUntils req ! i) (zkProofs req ! i) = Inr (s1, t)"
    by (auto simp: batch_item_def split: if_splits sum.splits)
  from Cons.prems(2) have r1: "room s 1" by (simp add: room_def)
  note w = mintSingleCredential_wf [OF Cons.prems(1) r1 m]
  from Cons.prems(2) w(2) have r2: "room s1 (length rest)" by (simp add: room_def)
  from Cons.IH [OF w(1) r2 l] w(2) show ?case by simp
qed

lemma step_wf:
  assumes "well_formed s" and "room s 50" and "step k c t s = Inr s'"
  shows "well_formed s' \<and> unat (tokenIdCounter s') \<le> unat (tokenIdCounter s) + 50"
proof (cases t)
  case (MintCredential to cH sH eH ipfs ty sb vu zk)
  with assms(3) obtain r where m: "mintSingleCredential k c s to cH sH eH ipfs ty sb vu zk = Inr r"
    and s': "s' = fst r"
    by (auto simp: mintCredential_def split: if_splits sum.splits)
  from m s' have m': "mintSingleCredential k c s to cH sH eH ipfs ty sb vu zk = Inr (s', snd r)"
    by simp
  from assms(2) have "room s 1" by (simp add: room_def)
  from mintSingleCredential_wf [OF assms(1) this m'] show ?thesis by simp
next
  case (BatchMintCredentials req)
  with assms(3) have l: "batch_loop k c req [0 ..< length (recipients req)] s = Inr s'"
    and n: "length (recipients req) \<le> 50"
    by (auto simp: batchMintCredentials_def split: if_splits)
  from assms(2) n have "room s (length [0 ..< length (recipients req)])" by (simp add: room_def)
  from batch_loop_wf [OF assms(1) this l] n show ?thesis by simp
next
  case (Burn tokenId)
  with assms(3) have b: "burn c s tokenId = Inr s'" by simp
  note f = burn_Inr [OF b]
  have "tokenIdCounter s' = tokenIdCounter s"
    using b by (auto simp: burn_def Let_def removeFromIssuerList_def erc721_defs
                     split: if_splits sum.splits)
  moreover from this assms(1) f(1,3) have "well_formed s'" by (auto simp: well_formed_def)
  ultimately show ?thesis by simp
next
  case (RevokeCredential tokenId reason)
  with assms(1,3) show ?thesis
    by (auto simp: well_formed_def revokeCredential_def exists_token_def split: if_splits)
next
  case (TransferFrom src dst tokenId)
  with assms(1,3) show ?thesis
    by (auto simp: well_formed_def transferFrom_def erc721_defs split: if_splits sum.splits)
next
  case (SafeTransferFrom src dst tokenId)
  with assms(1,3) show ?thesis
    by (auto simp: well_formed_def safeTransferFrom_def erc721_defs split: if_splits sum.splits)
qed (use assms(1,3) in \<open>auto simp: well_formed_def
      setCredentialVerification_def setEmergencyPause_def approve_def setApprovalForAll_def
      grantRole_def revokeRole_def renounceRole_def erc721_defs split: if_splits sum.splits\<close>)

lemma run_wf:
  "well_formed s \<Longrightarrow> room s (50 * length txs) \<Longrightarrow> well_formed (run k s txs)"
proof (induction txs arbitrary: s)
  case Nil
  then show ?case by (simp add: run_def)
next
  case (Cons ct txs)
  from Cons.prems(2) have r: "room s 50" by (simp add: room_def)
  have "well_formed (apply_tx k s ct) \<and> room (apply_tx k s ct) (50 * length txs)"
  proof (cases "step k (fst ct) (snd ct) s")
    case (Inl e)
    with Cons.prems show ?thesis by (simp add: apply_tx_def room_def)
  next
    case (Inr s')
    from step_wf [OF Cons.prems(1) r Inr] Cons.prems(2) Inr
    show ?thesis by (simp add: apply_tx_def room_def)
  qed
  with Cons.IH [of "apply_tx k s ct"] show ?case by (simp add: run_def)
qed

lemma wf_reachable:
  "50 * length txs < 2 ^ 256 \<Longrightarrow> well_formed (run k (initialize c zero_state) txs)"
  by (rule run_wf) (simp_all add: well_formed_def room_def initialize_def zero_state_def)

text \<open>While the counter has room, an id without owner is never handed out again.\<close>

lemma mintSingleCredential_burned:
  assumes "room s 1" and "burned s tokenId"
    and "mintSingleCredential k c s to cH sH eH ipfs ty sb vu zk = Inr (s', t)"
  shows "burned s' tokenId"
proof -
  note f = mintSingleCredential_Inr [OF assms(3)]
  from assms(1) have u: "unat (tokenIdCounter s + 1) = unat (tokenIdCounter s) + 1"
    by (simp add: room_def unat_succ)
  from assms(2) have "unat tokenId \<le> unat (tokenIdCounter s)"
    by (simp add: burned_def word_le_nat_alt)
  with u have lt: "unat tokenId < unat (tokenIdCounter s + 1)" by simp
  then have "tokenId \<noteq> t" using f(1) by auto
  moreover from lt have "tokenId \<le> tokenIdCounter s + 1" by (simp add: word_le_nat_alt)
  ultimately show ?thesis using assms(2) f(2,4) by (simp add: burned_def)
qed

lemma batch_loop_burned:
  "well_formed s \<Longrightarrow> room s (length is) \<Longrightarrow> burned s tokenId \<Longrightarrow>
   batch_loop k c req is s = Inr s' \<Longrightarrow> burned s' tokenId"
proof (induction "is" arbitrary: s)
  case Nil
  then show ?case by simp
next
  case (Cons i rest)
  from Cons.prems(4) obtain s1 where b: "batch_item k c req i s = Inr s1"
    and l: "batch_loop k c req rest s1 = Inr s'"
    by (auto split: sum.splits)
  from b obtain t where m: "mintSingleCredential k c s
                  (recipients req ! i) (courseHashes req ! i) (studentHashes req ! i)
                  (evaluationHashes req ! i) (ipfsMetadataList req ! i)
                  (credentialTypes req ! i) (isSoulboundList req ! i)
                  (validUntils req ! i) (zkProofs req ! i) = Inr (s1, t)"
    by (auto simp: batch_item_def split: if_splits sum.splits)
  from Cons.prems(2) have r1: "room s 1" by (simp add: room_def)
  note w = mintSingleCredential_wf [OF Cons.prems(1) r1 m]
  from Cons.prems(2) w(2) have r2: "room s1 (length rest)" by (simp add: room_def)
  have "burned s1 tokenId" by (rule mintSingleCredential_burned [OF r1 Cons.prems(3) m])
  from Cons.IH [OF w(1) r2 this l] show ?case .
qed

lemma step_burned:
  assumes "well_formed s" and "room s 50" and "burned s tokenId" and "step k c t s = Inr s'"
  shows "burned s' tokenId"
proof (cases t)
  case (MintCredential to cH sH eH ipfs ty sb vu zk)
  with assms(4) obtain r where m: "mintSingleCredential k c s to cH sH eH ipfs ty sb vu zk = Inr r"
    and s': "s' = fst r"
    by (auto simp: mintCredential_def split: if_splits sum.splits)
  from m s' have m': "mintSingleCredential k c s to cH sH eH ipfs ty sb vu zk = Inr (s', snd r)"
    by simp
  from assms(2) have "room s 1" by (simp add: room_def)
  from mintSingleCredential_burned [OF this assms(3) m'] show ?thesis .
next
  case (BatchMintCredentials req)
  with assms(4) have l: "batch_loop k c req [0 ..< length (recipients req)] s = Inr s'"
    and n: "length (recipients req) \<le> 50"
    by (auto simp: batchMintCredentials_def split: if_splits)
  from assms(2) n have "room s (length [0 ..< length (recipients req)])" by (simp add: room_def)
  from batch_loop_burned [OF assms(1) this assms(3) l] show ?thesis .
next
  case (Burn t')
  with assms(3,4) show ?thesis
    by (auto simp: burned_def burn_def Let_def removeFromIssuerList_def erc721_defs
             split: if_splits sum.splits)
next
  case (TransferFrom src dst t')
  with assms(3,4) show ?thesis
    by (auto simp: burned_def transferFrom_def erc721_defs split: if_splits sum.splits)
next
  case (SafeTransferFrom src dst t')
  with assms(3,4) show ?thesis
    by (auto simp: burned_def safeTransferFrom_def erc721_defs split: if_splits sum.splits)
qed (use assms(3,4) in \<open>auto simp: burned_def revokeCredential_def
      setCredentialVerification_def setEmergencyPause_def approve_def setApprovalForAll_def
      grantRole_def revokeRole_def renounceRole_def erc721_defs split: if_splits sum.splits\<close>)

lemma run_burned:
  "well_formed s \<Longrightarrow> room s (50 * length txs) \<Longrightarrow> burned s tokenId \<Longrightarrow> burned (run k s txs) tokenId"
proof (induction txs arbitrary: s)
  case Nil
  then show ?case by (simp add: run_def)
next
  case (Cons ct txs)
  from Cons.prems(2) have r: "room s 50" by (simp add: room_def)
  have "well_formed (apply_tx k s ct) \<and> room (apply_tx k s ct) (50 * length txs)
        \<and> burned (apply_tx k s ct) tokenId"
  proof (cases "step k (fst ct) (snd ct) s")
    case (Inl e)
    with Cons.prems show ?thesis by (simp add: apply_tx_def room_def)
  next
    case (Inr s')
    from step_wf [OF Cons.prems(1) r Inr] step_burned [OF Cons.prems(1) r Cons.prems(3) Inr]
      Cons.prems(2) Inr
    show ?thesis by (simp add: apply_tx_def room_def)
  qed
  with Cons.IH [of "apply_tx k s ct"] show ?case by (simp add: run_def)
qed

lemma burn_wf_burned:
  assumes "well_formed s" and "burn c s tokenId = Inr s'"
  shows "well_formed s'" and "burned s' tokenId" and "tokenIdCounter s' = tokenIdCounter s"
proof -
  note f = burn_Inr [OF assms(2)]
  show c: "tokenIdCounter s' = tokenIdCounter s"
    using assms(2) by (auto simp: burn_def Let_def removeFromIssuerList_def erc721_defs
                     split: if_splits sum.splits)
  from c assms(1) f(1,3) show "well_formed s'" by (auto simp: well_formed_def)
  have "owners s tokenId \<noteq> 0"
    using assms(2) by (auto simp: burn_def isApprovedOrOwner_def ownerOf_def split: if_splits)
  with assms(1) have "tokenId \<le> tokenIdCounter s" unfolding well_formed_def by blast
  with c f(1) show "burned s' tokenId" by (simp add: burned_def)
qed

text \<open>
  For a revocable, non-soulbound credential and a caller who is the holder or an approved
  party, with the contract not paused: from the Active state (not revoked, not expired)
  \<open>burn\<close> succeeds and purges the owner entry, the record and the revocation flag, after
  which the token does not exist for \<open>verifyCredential\<close>, \<open>getCredential\<close> and \<open>burn\<close>,
  nor after any further transactions on well-formed storage whose counter has room for
  them; from the Revoked state \<open>burn\<close> reverts.
\<close>

lemma burn_from_active_is_terminal:
  assumes "may_burn s c tokenId"
  shows "(\<not> revokedCredentials s tokenId \<and> \<not> expired c s tokenId \<longrightarrow>
            (\<exists>s'. burn c s tokenId = Inr s'
               \<and> \<not> exists_token s' tokenId
               \<and> credentials s' tokenId = zero_credential
               \<and> \<not> revokedCredentials s' tokenId
               \<and> verifyCredential c' s' tokenId = (False, ''Credential does not exist'')
               \<and> getCredential s' tokenId = Inl (Revert ''Credential does not exist'')
               \<and> burn c' s' tokenId = Inl (Revert ''ERC721: invalid token ID'')
               \<and> (\<forall>txs. well_formed s \<and> room s (50 * length txs) \<longrightarrow>
                     \<not> exists_token (run k s' txs) tokenId)))
       \<and> (revokedCredentials s tokenId \<longrightarrow>
            burn c s tokenId = Inl (Revert ''Revoked credential cannot be transferred''))"
proof (intro conjI impI)
  assume a: "\<not> revokedCredentials s tokenId \<and> \<not> expired c s tokenId"
  with burn_active [OF assms] obtain s' where b: "burn c s tokenId = Inr s'" by blast
  note f = burn_Inr [OF b]
  have "\<not> exists_token s' tokenId" using f(1) by (simp add: exists_token_def)
  moreover have "credentials s' tokenId = zero_credential" using f(2) by simp
  moreover have "\<not> revokedCredentials s' tokenId" using f(3) by simp
  moreover have "verifyCredential c' s' tokenId = (False, ''Credential does not exist'')"
    using f(1) by (simp add: verifyCredential_def exists_token_def)
  moreover have "getCredential s' tokenId = Inl (Revert ''Credential does not exist'')"
    using f(1) by (simp add: getCredential_def exists_token_def)
  moreover have "burn c' s' tokenId = Inl (Revert ''ERC721: invalid token ID'')"
    using f(1) by (simp add: burn_def isApprovedOrOwner_def ownerOf_def)
  moreover have "\<not> exists_token (run k s' txs) tokenId"
    if w: "well_formed s \<and> room s (50 * length txs)" for txs
  proof -
    from w have "well_formed s" and r: "room s (50 * length txs)" by simp_all
    note g = burn_wf_burned [OF \<open>well_formed s\<close> b]
    from r g(3) have "room s' (50 * length txs)" by (simp add: room_def)
    from run_burned [OF g(1) this g(2)] show ?thesis
      by (simp add: burned_def exists_token_def)
  qed
  ultimately show "\<exists>s'. burn c s tokenId = Inr s'
               \<and> \<not> exists_token s' tokenId
               \<and> credentials s' tokenId = zero_credential
               \<and> \<not> revokedCredentials s' tokenId
               \<and> verifyCredential c' s' tokenId = (False, ''Credential does not exist'')
               \<and> getCredential s' tokenId = Inl (Revert ''Credential does not exist'')
               \<and> burn c' s' tokenId = Inl (Revert ''ERC721: invalid token ID'')
               \<and> (\<forall>txs. well_formed s \<and> room s (50 * length txs) \<longrightarrow>
                     \<not> exists_token (run k s' txs) tokenId)"
    using b by blast
next
  assume "revokedCredentials s tokenId"
  with assms show "burn c s tokenId = Inl (Revert ''Revoked credential cannot be transferred'')"
    by (rule burn_revoked)
qed

lemma may_burn_minted: "may_burn s_minted holder0 1"
  using s_minted_facts by (simp add: may_burn_def holder0_def)

lemma may_burn_revoked: "may_burn s_revoked holder0 1"
  using s_revoked_facts by (simp add: may_burn_def holder0_def)

text \<open>
  C6 (the code at the failing input). For a revocable, non-soulbound credential that is
  revoked, \<open>burn\<close> invoked by the holder or an approved party reverts with "Revoked
  credential cannot be transferred": \<open>_burn\<close> runs the transfer hook, whose guard on
  revoked tokens has no exemption for a burn. The transaction leaves the storage as it
  was, and the token still exists.
\<close>

theorem burn_of_revoked_credential_reverts:
  assumes "may_burn s c tokenId" and "revokedCredentials s tokenId"
  shows "burn c s tokenId = Inl (Revert ''Revoked credential cannot be transferred'')
    \<and> apply_tx k s (c, Burn tokenId) = s
    \<and> exists_token s tokenId"
proof -
  have b: "burn c s tokenId = Inl (Revert ''Revoked credential cannot be transferred'')"
    using assms by (rule burn_revoked)
  then have "apply_tx k s (c, Burn tokenId) = s" by (simp add: apply_tx_def)
  moreover from assms(1) have "exists_token s tokenId"
    by (simp add: may_burn_def exists_token_def)
  ultimately show ?thesis using b by blast
qed

theorem burn_of_revoked_credential_reverts_witness:
  "s_revoked = run k0 s0 [mint_tx0, (deployer0, RevokeCredential 1 ''policy violation'')]
   \<and> may_burn s_revoked holder0 1 \<and> revokedCredentials s_revoked 1
   \<and> ownerOf s_revoked 1 = Inr (msg_sender holder0)
   \<and> isRevocable (credentials s_revoked 1) \<and> \<not> isSoulbound (credentials s_revoked 1)
   \<and> burn holder0 s_revoked 1 = Inl (Revert ''Revoked credential cannot be transferred'')
   \<and> apply_tx k0 s_revoked (holder0, Burn 1) = s_revoked"
proof -
  have r: "s_revoked = run k0 s0 [mint_tx0, (deployer0, RevokeCredential 1 ''policy violation'')]"
    by (simp add: s_revoked_def s_minted_def run_def)
  have o: "ownerOf s_revoked 1 = Inr (msg_sender holder0)"
    using s_revoked_facts by (simp add: ownerOf_def exists_token_def holder0_def)
  from burn_of_revoked_credential_reverts [OF may_burn_revoked s_revoked_facts(5), of k0]
  show ?thesis using r o may_burn_revoked s_revoked_facts by blast
qed

text \<open>
  The statement \<open>delete revokedCredentials[tokenId]\<close> of \<open>burn\<close> never clears a flag that
  is set: a burn that succeeds starts from a token that is not revoked.
\<close>

lemma burn_clears_no_revocation:
  "burn c s tokenId = Inr s' \<Longrightarrow> revokedCredentials s' = revokedCredentials s"
proof -
  assume b: "burn c s tokenId = Inr s'"
  from burn_Inr(3,5) [OF b] show ?thesis by (simp add: fun_upd_idem_iff)
qed

text \<open>
  C5 (amended). A successful \<open>burn\<close> of a minted credential, after any transactions,
  removes the owner entry, the record and the revocation flag and leaves \<open>usedHashes\<close> as
  it was: the entry of the credential's (courseHash, studentHash) pair stays set, and
  every later attempt to mint that pair fails, at the duplicate guard once the
  requirements before it are met.
\<close>

theorem burn_keeps_commitment:
  assumes "mintCredential k c1 s to cH sH eH ipfs ty sb vu zk = Inr (s1, tokenId)
         \<or> mintSingleCredential k c1 s to cH sH eH ipfs ty sb vu zk = Inr (s1, tokenId)"
    and "burn c2 (run k s1 txs) tokenId = Inr s3"
  shows "\<not> exists_token s3 tokenId \<and> credentials s3 tokenId = zero_credential
    \<and> \<not> revokedCredentials s3 tokenId
    \<and> usedHashes s3 = usedHashes (run k s1 txs)
    \<and> usedHashes s3 (credentialHash k cH sH)
    \<and> mintSingleCredential k c3 (run k s3 txs') to3 cH sH e3 ipfs3 ty3 sb3 vu3 z3
         = Inl (Revert ''Credential already exists'')
    \<and> isl (mintCredential k c3 (run k s3 txs') to3 cH sH e3 ipfs3 ty3 sb3 vu3 z3)"
proof -
  from assms(1) have m: "mintSingleCredential k c1 s to cH sH eH ipfs ty sb vu zk = Inr (s1, tokenId)"
    by (auto dest: mintCredential_is_single)
  have "usedHashes s1 (credentialHash k cH sH)"
    using mintSingleCredential_Inr(3) [OF m] by simp
  then have "usedHashes (run k s1 txs) (credentialHash k cH sH)" by (rule run_usedHashes)
  note f = burn_Inr [OF assms(2)]
  from \<open>usedHashes (run k s1 txs) (credentialHash k cH sH)\<close> f(4)
  have u3: "usedHashes s3 (credentialHash k cH sH)" by simp
  then have u4: "usedHashes (run k s3 txs') (credentialHash k cH sH)" by (rule run_usedHashes)
  then have d: "mintSingleCredential k c3 (run k s3 txs') to3 cH sH e3 ipfs3 ty3 sb3 vu3 z3
         = Inl (Revert ''Credential already exists'')"
    by (rule mintSingleCredential_duplicate)
  then have "isl (mintCredential k c3 (run k s3 txs') to3 cH sH e3 ipfs3 ty3 sb3 vu3 z3)"
    by (simp add: mintCredential_def)
  with d u3 f(1,2,3,4) show ?thesis by (simp add: exists_token_def)
qed

lemma s_minted_mint:
  "mintCredential k0 deployer0 s0 20 ''c1'' ''s1'' ''e1'' ''Qm'' 1 False 0 0 = Inr (s_minted, 1)"
  by (simp add: s_minted_def contract_defs sample_defs Let_def)

lemma s_burned_burn: "burn holder0 s_minted 1 = Inr s_burned"
proof -
  from burn_active [OF may_burn_minted] s_minted_facts
  obtain s' where "burn holder0 s_minted 1 = Inr s'" by (auto simp: expired_def)
  then show ?thesis by (simp add: s_burned_def run_def apply_tx_def)
qed

theorem burn_keeps_commitment_witness:
  "mintCredential k0 deployer0 s0 20 ''c1'' ''s1'' ''e1'' ''Qm'' 1 False 0 0 = Inr (s_minted, 1)
   \<and> burn holder0 (run k0 s_minted []) 1 = Inr s_burned
   \<and> \<not> exists_token s_burned 1
   \<and> usedHashes s_burned (credentialHash k0 ''c1'' ''s1'')
   \<and> mintSingleCredential k0 deployer0 (run k0 s_burned []) 20 ''c1'' ''s1'' ''e1'' ''Qm'' 1 False 0 0
        = Inl (Revert ''Credential already exists'')"
proof -
  have b: "burn holder0 (run k0 s_minted []) 1 = Inr s_burned"
    using s_burned_burn by (simp add: run_def)
  from burn_keeps_commitment [OF disjI1 [OF s_minted_mint] b] s_minted_mint b
  show ?thesis by blast
qed

text \<open>
  The claim as stated fails: after mint and burn of token 1 the registry entry is still
  set and a mint of the same pair that meets every requirement reverts.
\<close>

theorem burn_frees_slot_counterexample:
  "mintCredential k0 deployer0 s0 20 ''c1'' ''s1'' ''e1'' ''Qm'' 1 False 0 0 = Inr (s_minted, 1)
   \<and> burn holder0 s_minted 1 = Inr s_burned
   \<and> usedHashes s_burned (credentialHash k0 ''c1'' ''s1'')
   \<and> mint_guards s_burned deployer0 20 ''c1'' ''s1'' ''Qm'' 1 0
   \<and> mintCredential k0 deployer0 s_burned 20 ''c1'' ''s1'' ''e1'' ''Qm'' 1 False 0 0
        = Inl (Revert ''Credential already exists'')"
proof -
  note f = burn_Inr [OF s_burned_burn]
  have u: "usedHashes s_burned (credentialHash k0 ''c1'' ''s1'')"
    using f(4) s_minted_facts(7) by simp
  from f(7,8) have g: "mint_guards s_burned deployer0 20 ''c1'' ''s1'' ''Qm'' 1 0"
    using s_minted_facts by (simp add: mint_guards_def deployer0_def)
  show ?thesis
    using s_minted_mint s_burned_burn u g
    by (simp add: mintCredential_guarded [OF g] mintSingleCredential_duplicate [OF u])
qed

text \<open>
  The registry holds exactly the commitments of the pairs that were issued: an entry is set
  by a successful issuance and by nothing else, and never cleared.
\<close>

lemma batch_loop_registry:
  "batch_loop k c req is s = Inr s' \<Longrightarrow>
   usedHashes s' h \<longleftrightarrow> usedHashes s h
     \<or> h \<in> (\<lambda>i. k (courseHashes req ! i @ studentHashes req ! i)) ` set is"
proof (induction "is" arbitrary: s)
  case Nil
  then show ?case by simp
next
  case (Cons i rest)
  from Cons.prems(1) obtain s1 where b: "batch_item k c req i s = Inr s1"
    and l: "batch_loop k c req rest s1 = Inr s'"
    by (auto split: sum.splits)
  from b have "usedHashes s1 = (usedHashes s)(k (courseHashes req ! i @ studentHashes req ! i) := True)"
    by (auto simp: batch_item_def credentialHash_def split: if_splits sum.splits
          dest!: mintSingleCredential_Inr(3))
  then show ?case using Cons.IH [OF l] by auto
qed

lemma step_registry:
  assumes "step k c t s = Inr s'"
  shows "usedHashes s' h \<longleftrightarrow> usedHashes s h \<or> h \<in> (\<lambda>p. k (fst p @ snd p)) ` set (issued_by t)"
proof (cases t)
  case (MintCredential to cH sH eH ipfs ty sb vu zk)
  then show ?thesis using assms
    by (auto simp: mintCredential_def credentialHash_def split: if_splits sum.splits
          dest!: mintSingleCredential_Inr(3))
next
  case (BatchMintCredentials req)
  with assms have "batch_loop k c req [0 ..< length (recipients req)] s = Inr s'"
    by (auto simp: batchMintCredentials_def split: if_splits)
  from batch_loop_registry [OF this, of h] show ?thesis
    using BatchMintCredentials by (auto simp: image_iff)
next
  case (Burn tokenId)
  then show ?thesis using assms
    by (auto simp: burn_def Let_def removeFromIssuerList_def erc721_defs split: if_splits sum.splits)
qed (use assms in \<open>auto simp: revokeCredential_def transferFrom_def safeTransferFrom_def
      setCredentialVerification_def setEmergencyPause_def approve_def setApprovalForAll_def
      grantRole_def revokeRole_def renounceRole_def erc721_defs split: if_splits sum.splits\<close>)

lemma run_Cons: "run k s (ct # rest) = run k (apply_tx k s ct) rest"
  by (simp add: run_def)

lemma run_registry:
  "usedHashes (run k s txs) h \<longleftrightarrow>
     usedHashes s h \<or> h \<in> (\<lambda>p. k (fst p @ snd p)) ` set (issued k s txs)"
proof (induction txs arbitrary: s)
  case Nil
  then show ?case by (simp add: run_def)
next
  case (Cons ct rest)
  show ?case
  proof (cases "step k (fst ct) (snd ct) s")
    case (Inl e)
    then show ?thesis using Cons.IH [of s] by (simp add: run_Cons apply_tx_def)
  next
    case (Inr s1)
    from step_registry [OF Inr, of h] Cons.IH [of s1] Inr
    show ?thesis by (simp add: run_Cons apply_tx_def image_Un)
  qed
qed

lemma initialize_usedHashes: "usedHashes (initialize c zero_state) h = False"
  by (simp add: initialize_def zero_state_def)

text \<open>
  C2 (amended). On a ledger reached from deployment by a sequence of transactions (short
  enough for the token counter not to wrap around), a \<open>mintCredential\<close> call that passes
  the requirements, whose recipient accepts the token, and whose packed commitment
  \<open>keccak256(courseHash ++ studentHash)\<close> differs from that of every pair issued so far,
  by a single or a batch issuance, burned since or not, succeeds and assigns the next
  counter value, an id that had no owner, and registers the commitment. After it, and
  after any further transactions, every \<open>mintCredential\<close> call with the same pair that
  passes the requirements reverts with "Credential already exists", and the storage stays
  as it was.
\<close>

theorem first_issuance_succeeds_then_rejected:
  assumes "50 * length txs < 2 ^ 256"
    and "s = run k (initialize c0 zero_state) txs"
    and "\<forall>p\<in>set (issued k (initialize c0 zero_state) txs). k (fst p @ snd p) \<noteq> k (cH @ sH)"
    and "mint_guards s c1 to1 cH sH ipfs1 ty1 vu1"
    and "onERC721Received c1 to1"
  shows "\<exists>s1 tokenId.
      mintCredential k c1 s to1 cH sH e1 ipfs1 ty1 sb1 vu1 z1 = Inr (s1, tokenId)
    \<and> tokenId = tokenIdCounter s + 1 \<and> \<not> exists_token s tokenId
    \<and> ownerOf s1 tokenId = Inr to1
    \<and> usedHashes s1 (k (cH @ sH))
    \<and> (\<forall>later c2 to2 e2 ipfs2 ty2 sb2 vu2 z2.
         mint_guards (run k s1 later) c2 to2 cH sH ipfs2 ty2 vu2 \<longrightarrow>
           mintCredential k c2 (run k s1 later) to2 cH sH e2 ipfs2 ty2 sb2 vu2 z2
             = Inl (Revert ''Credential already exists'')
         \<and> apply_tx k (run k s1 later) (c2, MintCredential to2 cH sH e2 ipfs2 ty2 sb2 vu2 z2)
             = run k s1 later)"
proof -
  have w: "well_formed s" unfolding assms(2) by (rule wf_reachable [OF assms(1)])
  have "\<not> usedHashes s (k (cH @ sH))"
    unfolding assms(2) run_registry using assms(3) by (auto simp: initialize_usedHashes)
  then have u: "\<not> usedHashes s (credentialHash k cH sH)" by (simp add: credentialHash_def)
  from issuance_on_unused_commitment [OF w assms(4,5) u, of e1 sb1 z1]
  obtain s1 tokenId where
    m: "mintCredential k c1 s to1 cH sH e1 ipfs1 ty1 sb1 vu1 z1 = Inr (s1, tokenId)"
    and r: "tokenId = tokenIdCounter s + 1" "\<not> exists_token s tokenId"
           "ownerOf s1 tokenId = Inr to1"
    and d: "\<forall>txs c2 to2 e2 ipfs2 ty2 sb2 vu2 z2.
         mint_guards (run k s1 txs) c2 to2 cH sH ipfs2 ty2 vu2 \<longrightarrow>
           mintCredential k c2 (run k s1 txs) to2 cH sH e2 ipfs2 ty2 sb2 vu2 z2
             = Inl (Revert ''Credential already exists'')
         \<and> apply_tx k (run k s1 txs) (c2, MintCredential to2 cH sH e2 ipfs2 ty2 sb2 vu2 z2)
             = run k s1 txs"
    by blast
  from m have "mintSingleCredential k c1 s to1 cH sH e1 ipfs1 ty1 sb1 vu1 z1 = Inr (s1, tokenId)"
    by (rule mintCredential_is_single)
  from mintSingleCredential_Inr(3) [OF this] have "usedHashes s1 (k (cH @ sH))"
    by (simp add: credentialHash_def)
  with m r d show ?thesis by blast
qed

lemma issued_mint_tx0: "issued k0 s0 [mint_tx0] = [(''c1'', ''s1'')]"
  by (simp add: contract_defs sample_defs Let_def)

lemma guards_s_minted: "mint_guards s_minted deployer0 30 ''c2'' ''s22'' ''Qn'' 2 0"
  using s_minted_facts by (simp add: mint_guards_def deployer0_def)

theorem first_issuance_succeeds_then_rejected_witness:
  "50 * length [mint_tx0] < (2::nat) ^ 256
   \<and> s_minted = run k0 (initialize deployer0 zero_state) [mint_tx0]
   \<and> issued k0 (initialize deployer0 zero_state) [mint_tx0] = [(''c1'', ''s1'')]
   \<and> k0 (''c1'' @ ''s1'') \<noteq> k0 (''c2'' @ ''s22'')
   \<and> mint_guards s_minted deployer0 30 ''c2'' ''s22'' ''Qn'' 2 0
   \<and> onERC721Received deployer0 30
   \<and> (\<exists>s1. mintCredential k0 deployer0 s_minted 30 ''c2'' ''s22'' ''e2'' ''Qn'' 2 False 0 0
              = Inr (s1, 2)
         \<and> ownerOf s1 2 = Inr 30
         \<and> mintCredential k0 deployer0 s1 40 ''c2'' ''s22'' ''e3'' ''Qo'' 1 True 0 0
              = Inl (Revert ''Credential already exists''))"
proof -
  have a: "50 * length [mint_tx0] < (2::nat) ^ 256" by simp
  have b: "s_minted = run k0 (initialize deployer0 zero_state) [mint_tx0]"
    by (simp add: s_minted_def s0_def)
  have i: "issued k0 (initialize deployer0 zero_state) [mint_tx0] = [(''c1'', ''s1'')]"
    using issued_mint_tx0 by (simp add: s0_def)
  have n: "k0 (''c1'' @ ''s1'') \<noteq> k0 (''c2'' @ ''s22'')" by (simp add: k0_def)
  have h: "\<forall>p\<in>set (issued k0 (initialize deployer0 zero_state) [mint_tx0]).
             k0 (fst p @ snd p) \<noteq> k0 (''c2'' @ ''s22'')"
    unfolding i using n by simp
  have r: "onERC721Received deployer0 30" by (simp add: deployer0_def)
  have c: "tokenIdCounter s_minted + 1 = 2"
    by (simp add: s_minted_def contract_defs sample_defs Let_def)
  from first_issuance_succeeds_then_rejected [OF a b h guards_s_minted r, of "''e2''" False 0]
  obtain s1 tokenId where
    m: "mintCredential k0 deployer0 s_minted 30 ''c2'' ''s22'' ''e2'' ''Qn'' 2 False 0 0 = Inr (s1, tokenId)"
    and t: "tokenId = tokenIdCounter s_minted + 1"
    and o: "ownerOf s1 tokenId = Inr 30"
    and d: "\<And>later c2 to2 e2 ipfs2 ty2 sb2 vu2 z2.
         mint_guards (run k0 s1 later) c2 to2 ''c2'' ''s22'' ipfs2 ty2 vu2 \<Longrightarrow>
           mintCredential k0 c2 (run k0 s1 later) to2 ''c2'' ''s22'' e2 ipfs2 ty2 sb2 vu2 z2
             = Inl (Revert ''Credential already exists'')"
    by blast
  from m have m': "mintSingleCredential k0 deployer0 s_minted 30 ''c2'' ''s22'' ''e2'' ''Qn'' 2 False 0 0
      = Inr (s1, tokenId)"
    by (rule mintCredential_is_single)
  have "mint_guards (run k0 s1 []) deployer0 40 ''c2'' ''s22'' ''Qo'' 1 0"
    using guards_s_minted mintSingleCredential_Inr(8,9) [OF m']
    by (simp add: mint_guards_def run_def)
  from d [OF this] have "mintCredential k0 deployer0 s1 40 ''c2'' ''s22'' ''e3'' ''Qo'' 1 True 0 0
             = Inl (Revert ''Credential already exists'')"
    by (simp add: run_def)
  with a b i n guards_s_minted r m o t c show ?thesis by simp
qed

text \<open>
  The claim as stated fails: whatever the hash function, after the pair ("ab", "c") was
  issued, the first issuance of the pair ("a", "bc"), which was never issued and passes
  the requirements, reverts with "Credential already exists". \<open>abi.encodePacked\<close> of two
  strings is their concatenation, so the two pairs have the same commitment.
\<close>

theorem first_issuance_of_pair_rejected_counterexample:
  "\<forall>k. \<exists>s1. mintCredential k deployer0 s0 20 ''ab'' ''c'' ''e1'' ''Qm'' 1 False 0 0 = Inr (s1, 1)
     \<and> issued k s0 [(deployer0, MintCredential 20 ''ab'' ''c'' ''e1'' ''Qm'' 1 False 0 0)]
         = [(''ab'', ''c'')]
     \<and> (''a'', ''bc'') \<noteq> (''ab'', ''c'')
     \<and> mint_guards s1 deployer0 30 ''a'' ''bc'' ''Qn'' 1 0 \<and> onERC721Received deployer0 30
     \<and> mintCredential k deployer0 s1 30 ''a'' ''bc'' ''e2'' ''Qn'' 1 False 0 0
          = Inl (Revert ''Credential already exists'')"
  by (simp add: contract_defs mint_guards_def s0_def initialize_def zero_state_def deployer0_def Let_def)

section \<open>Properties of the adapter and the controller\<close>

lemma append_sep_eq:
  assumes "c \<notin> set x" and "c \<notin> set y" and "x @ c # r = y @ c # q"
  shows "x = y \<and> r = q"
  using assms
proof (induction x arbitrary: y)
  case Nil
  then show ?case by (cases y) auto
next
  case (Cons a x)
  then show ?case by (cases y) auto
qed

lemma join_injective:
  assumes "xs \<noteq> []" and "ys \<noteq> []"
    and "\<forall>p\<in>set xs. c \<notin> set p" and "\<forall>p\<in>set ys. c \<notin> set p"
    and "join [c] xs = join [c] ys"
  shows "xs = ys"
  using assms
proof (induction xs arbitrary: ys)
  case Nil
  then show ?case by simp
next
  case (Cons x xs)
  note IH = Cons.IH and prems = Cons.prems
  from prems(2) obtain y ys' where ys: "ys = y # ys'" by (cases ys) auto
  have cx: "c \<notin> set x" using prems(3) by simp
  have cy: "c \<notin> set y" using prems(4) unfolding ys by simp
  have eq: "join [c] (x # xs) = join [c] (y # ys')" using prems(5) unfolding ys .
  show ?case
  proof (cases xs)
    case xs_Nil: Nil
    show ?thesis
    proof (cases ys')
      case Nil
      from eq have "x = y" unfolding xs_Nil Nil by (simp only: join.simps)
      then show ?thesis unfolding ys xs_Nil Nil by simp
    next
      case (Cons z zs)
      from eq have "x = y @ c # join [c] (z # zs)"
        unfolding xs_Nil Cons by (simp only: join.simps append.simps)
      then have "c \<in> set x" by simp
      with cx show ?thesis by simp
    qed
  next
    case xs_Cons: (Cons w ws)
    show ?thesis
    proof (cases ys')
      case Nil
      from eq have "x @ c # join [c] (w # ws) = y"
        unfolding xs_Cons Nil by (simp only: join.simps append.simps)
      then have "c \<in> set y" by auto
      with cy show ?thesis by simp
    next
      case (Cons z zs)
      from eq have "x @ c # join [c] xs = y @ c # join [c] ys'"
        unfolding xs_Cons Cons by (simp only: join.simps append.simps)
      with cx cy have "x = y \<and> join [c] xs = join [c] ys'"
        by (rule append_sep_eq)
      then have "x = y" and j: "join [c] xs = join [c] ys'" by simp_all
      have n1: "xs \<noteq> []" using xs_Cons by simp
      have n2: "ys' \<noteq> []" using Cons by simp
      have p1: "\<forall>p\<in>set xs. c \<notin> set p" using prems(3) by simp
      have p2: "\<forall>p\<in>set ys'. c \<notin> set p" using prems(4) unfolding ys by simp
      have "xs = ys'" by (rule IH [OF n1 n2 p1 p2 j])
      with \<open>x = y\<close> show ?thesis unfolding ys by simp
    qed
  qed
qed

text \<open>
  C9 (amended). For two distinct non-empty lists of parts in which no part contains the
  separator character \<open>|\<close>, the joined strings that \<open>generateCompositeHash\<close> hashes are
  distinct.
\<close>

theorem combined_injective_without_separator:
  assumes "xs \<noteq> []" and "ys \<noteq> []"
    and "\<forall>p\<in>set xs. CHR ''|'' \<notin> set p" and "\<forall>p\<in>set ys. CHR ''|'' \<notin> set p"
    and "xs \<noteq> ys"
  shows "combined xs \<noteq> combined ys"
  using join_injective [OF assms(1-4)] assms(5) by (auto simp: combined_def)

theorem combined_injective_without_separator_witness:
  "[''course-1'', ''user-7''] \<noteq> [''course-1'', ''user-8'']
   \<and> CHR ''|'' \<notin> set ''course-1'' \<and> CHR ''|'' \<notin> set ''user-7''
   \<and> CHR ''|'' \<notin> set ''user-8''
   \<and> combined [''course-1'', ''user-7''] \<noteq> combined [''course-1'', ''user-8'']"
  using combined_injective_without_separator [of "[''course-1'', ''user-7'']" "[''course-1'', ''user-8'']"]
  by simp

text \<open>
  The claim as stated fails: the one-part list \<open>["a|b"]\<close> and the two-part list
  \<open>["a", "b"]\<close> are joined to the same string.
\<close>

theorem combined_collision_counterexample:
  "[''a|b''] \<noteq> [''a'', ''b''] \<and> combined [''a|b''] = combined [''a'', ''b'']"
  by (simp add: combined_def)

text \<open>
  C3 (the code at the failing input). Whatever the contract handle answers for a token,
  the adapter's \<open>verifyCertificate\<close> called without \<open>expectedOwner\<close> returns
  \<open>isValid = false\<close>: for a valid token the comparison throws and the \<open>catch\<close> branch
  answers.
\<close>

theorem verify_without_expected_owner_is_invalid:
  "v_isValid (adapter_verifyCertificate svc tokenId None) = False"
  by (simp add: adapter_verifyCertificate_def verify_failed_def split: option.splits sum.splits)

lemma verify_without_expected_owner_example:
  "adapter_verifyCertificate svc0 ''1'' None
     = \<lparr> v_isValid = False, v_owner = None, v_isVerified = False,
         v_error = Some ''Cannot read properties of undefined (reading 'toLowerCase')'' \<rparr>"
  by (simp add: adapter_verifyCertificate_def verify_failed_def svc0_def contract0_def)

lemma verify_with_expected_owner:
  "contract svc = Some con \<Longrightarrow> call_ownerOf con tokenId = Inr owner \<Longrightarrow>
   call_verifyCertificate con tokenId = Inr True \<Longrightarrow>
   v_isValid (adapter_verifyCertificate svc tokenId (Some owner))"
  by (simp add: adapter_verifyCertificate_def)

text \<open>
  C8 (the code at the failing input). \<open>transferCertificate\<close> asks the node for one thing
  only, the submission of \<open>transferFrom\<close> with no gas limit: no estimate comes before it.
  The sibling path \<open>mintCertificate\<close> does ask for an estimate first
  (\<open>mint_estimates_first\<close> below).
\<close>

theorem transfer_submits_without_estimate:
  "snd (adapter_transferCertificate svc src dst tokenId)
     = (if signer svc \<and> contract svc \<noteq> None then [SendTransaction ''transferFrom'' None] else [])"
  by (auto simp: adapter_transferCertificate_def split: option.splits sum.splits)

lemma mint_estimates_first:
  assumes "signer svc" and "contract svc = Some con" and "upload_if_given svc cd = Inr ipfs"
  shows "snd (adapter_mintCertificate svc cd) = [EstimateGas ''mintCredential'']"
  using assms
  by (simp add: adapter_mintCertificate_def mint_submit_def bigint_times_number_def
        split: sum.splits)

text \<open>
  C1 (the code at the failing input). When the enrollment of the token is in the
  database, the response of the verify handler carries the recipient's name and email
  address, and it is the same response whoever the caller is.
\<close>

theorem verify_discloses_recipient:
  assumes "find (\<lambda>d. ref_tokenId (e_certificate d) = Some (vr_tokenId req)) db = Some e"
  shows "\<exists>view md. verifyCertificate env db req
           = \<lparr> http_status = 200, success = True, message = None, payload = Some view \<rparr>
         \<and> vv_metadata view = Some md
         \<and> vm_studentName md = u_name (e_user e) \<and> vm_studentEmail md = u_email (e_user e)
         \<and> verifyCertificate env db (req\<lparr> vr_caller := who \<rparr>) = verifyCertificate env db req"
  using assms by (simp add: verifyCertificate_def Let_def)

theorem verify_discloses_recipient_witness:
  "find (\<lambda>d. ref_tokenId (e_certificate d) = Some ''1'') [enrollment1] = Some enrollment1
   \<and> \<not> related_caller None enrollment1 None
   \<and> (\<exists>view md. payload (verifyCertificate env0 [enrollment1]
          \<lparr> vr_tokenId = ''1'', vr_ownerAddress = None, vr_caller = None \<rparr>) = Some view
        \<and> vv_metadata view = Some md
        \<and> vm_studentName md = ''Kim'' \<and> vm_studentEmail md = ''kim@example.com'')"
proof -
  have f: "find (\<lambda>d. ref_tokenId (e_certificate d)
              = Some (vr_tokenId \<lparr> vr_tokenId = ''1'', vr_ownerAddress = None, vr_caller = None \<rparr>))
            [enrollment1] = Some enrollment1"
    by (simp add: enrollment1_def)
  from verify_discloses_recipient [OF f, of env0]
  obtain view md where "verifyCertificate env0 [enrollment1]
          \<lparr> vr_tokenId = ''1'', vr_ownerAddress = None, vr_caller = None \<rparr>
           = \<lparr> http_status = 200, success = True, message = None, payload = Some view \<rparr>"
    and "vv_metadata view = Some md"
    and "vm_studentName md = u_name (e_user enrollment1)"
    and "vm_studentEmail md = u_email (e_user enrollment1)"
    by blast
  moreover have "u_name (e_user enrollment1) = ''Kim''" "u_email (e_user enrollment1) = ''kim@example.com''"
    by (simp_all add: enrollment1_def enrollment0_def user0_def)
  ultimately show ?thesis using f by (simp add: related_caller_def)
qed

lemma claimCertificate_find:
  "t \<noteq> [] \<Longrightarrow> claimCertificate clk db (Some t) =
     (case find (unclaimed_with t) db of
        None \<Rightarrow> (db, failure 404 ''Invalid or expired claim token'')
      | Some found \<Rightarrow>
          (let claimed = found\<lparr> e_certificate := (e_certificate found)
                                \<lparr> ref_claimed := True, ref_claimedAt := Some clk \<rparr> \<rparr>
                in (enrollment_save claimed db,
                    \<lparr> http_status = 200, success = True,
                      message = Some ''Certificate claimed successfully'',
                      payload = Some \<lparr> cs_tokenId = ref_tokenId (e_certificate claimed),
                                       cs_courseName = c_title (e_course claimed),
                                       cs_studentName = u_name (e_user claimed),
                                       cs_completionDate = e_completedAt claimed,
                                       cs_transactionHash =
                                         ref_transactionHash (e_certificate claimed) \<rparr> \<rparr>)))"
  unfolding claimCertificate_def by simp

text \<open>
  C7 (the code at the failing input). The enrollment that the mint handler saves carries
  no claim token, because the schema declares no such path. In a collection written
  through the model, the first \<open>claimCertificate\<close> call with the token that was issued
  finds no document: it answers 404 "Invalid or expired claim token" and leaves the
  collection as it is.
\<close>

theorem issued_claim_token_is_rejected:
  assumes "\<forall>d\<in>set db. ref_claimToken (e_certificate d) = None"
    and "randomBytes_hex env \<noteq> []"
  shows "ref_claimToken (e_certificate (minted_enrollment env e r)) = None
    \<and> claimCertificate clk (enrollment_save (minted_enrollment env e r) db)
          (Some (randomBytes_hex env))
        = (enrollment_save (minted_enrollment env e r) db,
           failure 404 ''Invalid or expired claim token'')"
proof -
  let ?m = "minted_enrollment env e r"
  have m: "ref_claimToken (e_certificate ?m) = None"
    by (simp add: minted_enrollment_def strict_certificate_def certificate_paths_def)
  have none: "ref_claimToken (e_certificate d) = None" if "d \<in> set (enrollment_save ?m db)" for d
  proof -
    from that have "d \<in> (\<lambda>d. if e_id d = e_id ?m then ?m else d) ` set db"
      unfolding enrollment_save_def by simp
    then obtain d0 where d0: "d0 \<in> set db" and d: "d = (if e_id d0 = e_id ?m then ?m else d0)"
      by (rule imageE)
    show ?thesis
    proof (cases "e_id d0 = e_id ?m")
      case True
      with d have "d = ?m" by simp
      with m show ?thesis by simp
    next
      case False
      with d have "d = d0" by simp
      with d0 assms(1) show ?thesis by simp
    qed
  qed
  have "\<not> unclaimed_with (randomBytes_hex env) d" if "d \<in> set (enrollment_save ?m db)" for d
    unfolding unclaimed_with_def using none [OF that] by simp
  then have "find (unclaimed_with (randomBytes_hex env)) (enrollment_save ?m db) = None"
    unfolding find_None_iff by blast
  then have "claimCertificate clk (enrollment_save ?m db) (Some (randomBytes_hex env))
        = (enrollment_save ?m db, failure 404 ''Invalid or expired claim token'')"
    unfolding claimCertificate_find [OF assms(2)] by (simp only: option.case)
  with m show ?thesis by blast
qed

theorem issued_claim_token_is_rejected_witness:
  "filter (\<lambda>d. ref_claimToken (e_certificate d) \<noteq> None) [enrollment0] = []
   \<and> randomBytes_hex env0 = ''5f2a''
   \<and> enrollment_save (minted_enrollment env0 enrollment0 mintResult0) [enrollment0] = [enrollment1]
   \<and> ref_tokenId (e_certificate enrollment1) = Some ''1''
   \<and> \<not> ref_claimed (e_certificate enrollment1)
   \<and> claimCertificate 9 [enrollment1] (Some ''5f2a'')
        = ([enrollment1], failure 404 ''Invalid or expired claim token'')"
proof -
  have a: "\<forall>d\<in>set [enrollment0]. ref_claimToken (e_certificate d) = None"
    by (simp add: enrollment0_def)
  have f: "filter (\<lambda>d. ref_claimToken (e_certificate d) \<noteq> None) [enrollment0] = []"
    by (simp add: enrollment0_def)
  have t: "randomBytes_hex env0 = ''5f2a''" by (simp add: env0_def)
  then have b: "randomBytes_hex env0 \<noteq> []" by simp
  have s: "enrollment_save (minted_enrollment env0 enrollment0 mintResult0) [enrollment0]
             = [enrollment1]"
    by (simp add: enrollment_save_def minted_enrollment_def strict_certificate_def
          certificate_paths_def enrollment1_def mintResult0_def env0_def)
  have c: "ref_tokenId (e_certificate enrollment1) = Some ''1''"
          "\<not> ref_claimed (e_certificate enrollment1)"
    by (simp_all add: enrollment1_def)
  from issued_claim_token_is_rejected [OF a b, of enrollment0 mintResult0 9]
  have "claimCertificate 9 [enrollment1] (Some ''5f2a'')
        = ([enrollment1], failure 404 ''Invalid or expired claim token'')"
    unfolding s t by blast
  with f t s c show ?thesis by blast
qed




text \<open>
  The adapter's \<open>mintCertificate\<close> never returns a result and never submits a transaction:
  the product of the bigint estimate and 1.2 throws. Were a transaction mined, the lookup
  of its event would find nothing, because the interface knows no event of the name
  \<open>CertificateMinted\<close>.
\<close>

lemma minted_event_None: "minted_event rcpt = None"
  by (simp add: minted_event_def find_None_iff parseLog_def contractABI_events_def)

lemma adapter_mintCertificate_throws:
  "isl (fst (adapter_mintCertificate svc cd))"
  and "SendTransaction m g \<notin> set (snd (adapter_mintCertificate svc cd))"
  by (simp_all add: adapter_mintCertificate_def mint_submit_def bigint_times_number_def
        split: option.splits sum.splits)






end
